theory Spec2Isabelle
  imports Complex_Main "HOL-Library.Word" "HOL-Library.Monad_Syntax"
begin

section \<open>Floating-point values\<close>

text \<open>
  The source computes in two formats. The elements of \<open>axes\<close> and every variable of
  type \<open>float_t\<close> (\<open>speed_x_max\<close>, \<open>speed_x_temporary\<close>, \<open>speed_yaw_temporary\<close>,
  \<open>limit\<close>, \<open>joystick\<close>, \<open>sum\<close>) are \<open>float\<close>: \<open>float_t\<close> is \<open>float\<close> on the
  platforms where an expression is evaluated in the type of its operands, which is what
  the model takes. The scales, the result of \<open>getVal\<close> and the fields of the command are
  \<open>double\<close>.

  A value of either format is a real number, an infinity or a NaN. An operation rounds
  its exact result to the nearest value of its format, a tie going to the even
  significand, and gives an infinity beyond the largest finite value (IEEE 754 binary32
  and binary64, the default rounding). The two zeros of a format are one value here: they
  compare equal, and the operations of the source (comparison, negation, sum, product,
  division by 10, conversion) give results that differ at most in the sign of a zero when
  the sign of a zero operand changes.
\<close>

datatype fp = Finite real | PInf | NInf | NaN

text \<open>The position of the leading binary digit of a positive integer.\<close>

function ilog2 :: "int \<Rightarrow> int" where
  "ilog2 n = (if n < 2 then 0 else 1 + ilog2 (n div 2))"
  by pat_completeness auto
termination
  by (relation "measure nat") auto

declare ilog2.simps [simp del]

text \<open>The binary exponent of a positive real: \<open>2 ^ e \<le> a < 2 ^ (e + 1)\<close>.\<close>

definition exponent :: "real \<Rightarrow> int" where
  "exponent a = (if 1 \<le> a then ilog2 \<lfloor>a\<rfloor> else - ilog2 (\<lceil>1 / a\<rceil> - 1) - 1)"

definition pow2 :: "int \<Rightarrow> real" where
  "pow2 k = (if 0 \<le> k then 2 ^ nat k else 1 / 2 ^ nat (- k))"

text \<open>The nearest integer, a tie going to the even one.\<close>

definition round_even :: "real \<Rightarrow> int" where
  "round_even q =
     (let f = \<lfloor>q\<rfloor>; r = q - of_int f
      in if r < 1 / 2 then f else if 1 / 2 < r then f + 1 else if even f then f else f + 1)"

text \<open>
  Rounding to a format with \<open>p\<close> significant binary digits and exponents from
  \<open>e_min\<close> to \<open>e_max\<close>: the spacing of the format at \<open>x\<close> is \<open>2 ^ (e - p + 1)\<close>,
  where \<open>e\<close> is the exponent of \<open>x\<close>, or \<open>e_min\<close> in the subnormal range.
\<close>

definition round_to :: "nat \<Rightarrow> int \<Rightarrow> int \<Rightarrow> real \<Rightarrow> fp" where
  "round_to p e_min e_max x =
     (if x = 0 then Finite 0
      else let a = \<bar>x\<bar>; e = max (exponent a) e_min; ulp = pow2 (e - int p + 1);
               y = of_int (round_even (a / ulp)) * ulp
           in if pow2 (e_max + 1) \<le> y then (if 0 < x then PInf else NInf)
              else Finite (if 0 < x then y else - y))"

definition round32 :: "real \<Rightarrow> fp" where
  "round32 = round_to 24 (-126) 127"

definition round64 :: "real \<Rightarrow> fp" where
  "round64 = round_to 53 (-1022) 1023"

text \<open>The conversion of a \<open>double\<close> to \<open>float\<close>.\<close>

fun to_float :: "fp \<Rightarrow> fp" where
  "to_float (Finite x) = round32 x"
| "to_float PInf = PInf"
| "to_float NInf = NInf"
| "to_float NaN = NaN"

text \<open>Unary minus, exact in both formats.\<close>

fun fneg :: "fp \<Rightarrow> fp" where
  "fneg (Finite x) = Finite (- x)"
| "fneg PInf = NInf"
| "fneg NInf = PInf"
| "fneg NaN = NaN"

text \<open>The comparison \<open>a < b\<close>: false as soon as an operand is a NaN.\<close>

fun fless :: "fp \<Rightarrow> fp \<Rightarrow> bool" where
  "fless (Finite x) (Finite y) = (x < y)"
| "fless (Finite x) PInf = True"
| "fless NInf (Finite y) = True"
| "fless NInf PInf = True"
| "fless _ _ = False"

text \<open>The sum of two \<open>float\<close> values.\<close>

fun fadd32 :: "fp \<Rightarrow> fp \<Rightarrow> fp" where
  "fadd32 (Finite x) (Finite y) = round32 (x + y)"
| "fadd32 NaN _ = NaN"
| "fadd32 _ NaN = NaN"
| "fadd32 PInf NInf = NaN"
| "fadd32 NInf PInf = NaN"
| "fadd32 PInf _ = PInf"
| "fadd32 _ PInf = PInf"
| "fadd32 NInf _ = NInf"
| "fadd32 _ NInf = NInf"

text \<open>A \<open>float\<close> divided by the constant 10.\<close>

fun fdiv10 :: "fp \<Rightarrow> fp" where
  "fdiv10 (Finite x) = round32 (x / 10)"
| "fdiv10 PInf = PInf"
| "fdiv10 NInf = NInf"
| "fdiv10 NaN = NaN"

text \<open>
  The product of two \<open>double\<close> values; a \<open>float\<close> operand is converted to
  \<open>double\<close> first, which changes nothing of its value.
\<close>

fun fmul64 :: "fp \<Rightarrow> fp \<Rightarrow> fp" where
  "fmul64 (Finite x) (Finite y) = round64 (x * y)"
| "fmul64 NaN _ = NaN"
| "fmul64 _ NaN = NaN"
| "fmul64 PInf (Finite y) = (if y = 0 then NaN else if 0 < y then PInf else NInf)"
| "fmul64 NInf (Finite y) = (if y = 0 then NaN else if 0 < y then NInf else PInf)"
| "fmul64 (Finite x) PInf = (if x = 0 then NaN else if 0 < x then PInf else NInf)"
| "fmul64 (Finite x) NInf = (if x = 0 then NaN else if 0 < x then NInf else PInf)"
| "fmul64 PInf PInf = PInf"
| "fmul64 PInf NInf = NInf"
| "fmul64 NInf PInf = NInf"
| "fmul64 NInf NInf = PInf"

section \<open>Data model of \<open>teleop_twist_joy.cpp\<close>\<close>

text \<open>
  The node turns joystick samples (\<open>sensor_msgs::msg::Joy\<close>) into velocity commands
  (\<open>geometry_msgs::msg::Twist\<close>). The embedding follows the source file function by
  function.

  \<^item> \<open>axes\<close> holds \<open>float\<close> values, the fields of a command and the scales hold
    \<open>double\<close> values, \<open>speed_x_max\<close> is a \<open>float_t\<close>: all are of type \<open>fp\<close>, and
    each operation on them is the one of its format.
  \<^item> \<open>buttons\<close> holds \<open>int32_t\<close> values (\<open>32 word\<close>), \<open>autorun_buffer\<close> is an
    \<open>int64_t\<close> that takes part in a subtraction (\<open>64 word\<close>, read by \<open>sint\<close>).
  \<^item> The configured button and axis indices are \<open>int64_t\<close> values that are only
    compared and used as subscripts, never computed with: they are \<open>int\<close>.
  \<^item> A subscript \<open>v[i]\<close> outside \<open>0 \<le> i < v.size()\<close> is undefined behaviour in C++;
    the model makes it the value \<open>None\<close>, and so is every computation that contains one.
  \<^item> \<open>std::map\<close> is a partial map; \<open>operator[]\<close> inserts a value-initialised entry
    for a missing key, which the model writes out.
  \<^item> The members \<open>joy_sub\<close> and \<open>cmd_vel_pub\<close> are the transport. They are not
    part of the state: a call of the callback takes the sample as its argument and
    returns the message it publishes, if any, with the new state.
\<close>

record Joy =
  axes :: "fp list"
  buttons :: "32 word list"

record Twist =
  linear_x :: fp
  linear_y :: fp
  linear_z :: fp
  angular_x :: fp
  angular_y :: fp
  angular_z :: fp

record Impl =
  require_enable_button :: bool
  autorun_flag :: bool
  enable_button :: int
  enable_turbo_button :: int
  enable_autorun_button :: int
  autorun_buffer :: "64 word"
  axis_linear_map :: "string \<rightharpoonup> int"
  scale_linear_map :: "string \<rightharpoonup> (string \<rightharpoonup> fp)"
  axis_angular_map :: "string \<rightharpoonup> int"
  axis_angular_adjustment_map :: "string \<rightharpoonup> int"
  scale_angular_map :: "string \<rightharpoonup> (string \<rightharpoonup> fp)"
  speed_x_max :: fp
  sent_disable_msg :: bool

text \<open>\<open>std::make_unique<geometry_msgs::msg::Twist>()\<close>: all six fields zero.\<close>

definition zero_twist :: Twist where
  "zero_twist = \<lparr>linear_x = Finite 0, linear_y = Finite 0, linear_z = Finite 0,
                 angular_x = Finite 0, angular_y = Finite 0, angular_z = Finite 0\<rparr>"

subsection \<open>Vector and map access\<close>

text \<open>\<open>v[i]\<close> on a \<open>std::vector\<close>, with the out-of-range read made visible.\<close>

definition vec_at :: "'a list \<Rightarrow> int \<Rightarrow> 'a option" where
  "vec_at xs i = (if 0 \<le> i \<and> i < int (length xs) then Some (xs ! nat i) else None)"

text \<open>\<open>static_cast<int>(v.size())\<close>: the size reduced to a signed 32-bit value.\<close>

definition static_cast_int :: "nat \<Rightarrow> int" where
  "static_cast_int n = signed_take_bit 31 (int n)"

text \<open>
  \<open>m[a]\<close> on the outer scale map: the inner map found there, or a fresh empty one that
  is inserted; and \<open>m[a][b]\<close>, which also inserts \<open>0.0\<close> for a missing inner key.
\<close>

definition scale_index :: "(string \<rightharpoonup> (string \<rightharpoonup> fp)) \<Rightarrow> string
    \<Rightarrow> (string \<rightharpoonup> fp) \<times> (string \<rightharpoonup> (string \<rightharpoonup> fp))" where
  "scale_index m a =
     (case m a of Some inner \<Rightarrow> (inner, m) | None \<Rightarrow> (Map.empty, m(a \<mapsto> Map.empty)))"

definition scale_index2 :: "(string \<rightharpoonup> (string \<rightharpoonup> fp)) \<Rightarrow> string \<Rightarrow> string
    \<Rightarrow> fp \<times> (string \<rightharpoonup> (string \<rightharpoonup> fp))" where
  "scale_index2 m a b =
     (let (inner, m1) = scale_index m a
      in case inner b of Some v \<Rightarrow> (v, m1)
         | None \<Rightarrow> (Finite 0, m1(a \<mapsto> inner(b \<mapsto> Finite 0))))"

section \<open>The functions of the source\<close>

subsection \<open>\<open>getVal\<close>\<close>

text \<open>
  Lines 393-406. The function returns a \<open>double\<close>: the constant \<open>0.0\<close>, or the
  product of the \<open>float\<close> axis value and the \<open>double\<close> scale.
\<close>

definition getVal :: "Joy \<Rightarrow> (string \<rightharpoonup> int) \<Rightarrow> (string \<rightharpoonup> fp) \<Rightarrow> string \<Rightarrow> fp option" where
  "getVal joy_msg axis_map scale_map fieldname =
     (case axis_map fieldname of
        None \<Rightarrow> Some (Finite 0)
      | Some i \<Rightarrow>
          if i = -1 then Some (Finite 0)
          else (case scale_map fieldname of
                  None \<Rightarrow> Some (Finite 0)
                | Some s \<Rightarrow>
                    if static_cast_int (length (axes joy_msg)) \<le> i then Some (Finite 0)
                    else do { a \<leftarrow> vec_at (axes joy_msg) i; Some (fmul64 a s) }))"

subsection \<open>\<open>sendCmdVelMsg\<close>\<close>

text \<open>
  The two conditional assignments of lines 425-426 and 437-438, on \<open>float\<close> values:
  first \<open>v > limit ? limit : v\<close>, then \<open>v < -limit ? -limit : v\<close> on the result. A
  NaN makes both comparisons false and passes through.
\<close>

definition limit_to :: "fp \<Rightarrow> fp \<Rightarrow> fp" where
  "limit_to limit v =
     (let v1 = (if fless limit v then limit else v)
      in if fless v1 (fneg limit) then fneg limit else v1)"

text \<open>
  Lines 408-455. \<open>scale_linear_map[which_map]\<close> and \<open>scale_angular_map[which_map]\<close>
  insert an empty inner map when the key is missing (lines 413-414); from then on the key
  is present, so the later subscripts with \<open>which_map\<close> (lines 431, 448-451) only read.

  The \<open>double\<close> results of \<open>getVal\<close> are converted to \<open>float\<close> when they
  initialise \<open>speed_x_temporary\<close>, \<open>speed_yaw_temporary\<close> and \<open>joystick\<close>. Each
  \<open>limit\<close> is the \<open>double\<close> product \<open>1.0f * scale\<close> converted to \<open>float\<close>. The
  division by 10, the addition to \<open>speed_x_max\<close> and the yaw sum are \<open>float\<close>
  operations. The fields \<open>linear.x\<close> and \<open>angular.z\<close> of the command receive
  \<open>float\<close> values, the other four the \<open>double\<close> results of \<open>getVal\<close>.

  The ramp and the yaw sum are computed only when \<open>autorun_flag\<close> is set; the command
  is always published and \<open>sent_disable_msg\<close> cleared.
\<close>

definition sendCmdVelMsg :: "Impl \<Rightarrow> Joy \<Rightarrow> string \<Rightarrow> (Impl \<times> Twist) option" where
  "sendCmdVelMsg impl joy_msg which_map =
     (let (sl, slm) = scale_index (scale_linear_map impl) which_map;
          (sa, sam) = scale_index (scale_angular_map impl) which_map;
          impl1 = impl\<lparr>scale_linear_map := slm, scale_angular_map := sam\<rparr>
      in do {
        x \<leftarrow> getVal joy_msg (axis_linear_map impl1) sl ''x'';
        let speed_x_temporary = to_float x;
        yaw \<leftarrow> getVal joy_msg (axis_angular_map impl1) sa ''yaw'';
        let speed_yaw_temporary = to_float yaw;
        (impl2, lx, az) \<leftarrow>
          (if autorun_flag impl1 then
             (let (xscale, slm2) = scale_index2 (scale_linear_map impl1) ''autorun'' ''x'';
                  xlimit = to_float (fmul64 (Finite 1) xscale);
                  speed = limit_to xlimit
                            (fadd32 (speed_x_max impl1) (fdiv10 speed_x_temporary));
                  (sa2, sam2) = scale_index (scale_angular_map impl1) which_map
              in do {
                adjustment \<leftarrow> getVal joy_msg (axis_angular_adjustment_map impl1) sa2 ''yaw'';
                let joystick = to_float adjustment;
                let sum = fadd32 speed_yaw_temporary joystick;
                let (yscale, sam3) = scale_index2 sam2 ''autorun'' ''yaw'';
                let ylimit = to_float (fmul64 (Finite 1) yscale);
                Some (impl1\<lparr>scale_linear_map := slm2, scale_angular_map := sam3,
                            speed_x_max := speed\<rparr>,
                      speed, limit_to ylimit sum)
              })
           else Some (impl1, speed_x_temporary, speed_yaw_temporary));
        let sl3 = fst (scale_index (scale_linear_map impl2) which_map);
        let sa3 = fst (scale_index (scale_angular_map impl2) which_map);
        ly \<leftarrow> getVal joy_msg (axis_linear_map impl2) sl3 ''y'';
        lz \<leftarrow> getVal joy_msg (axis_linear_map impl2) sl3 ''z'';
        ay \<leftarrow> getVal joy_msg (axis_angular_map impl2) sa3 ''pitch'';
        ax \<leftarrow> getVal joy_msg (axis_angular_map impl2) sa3 ''roll'';
        Some (impl2\<lparr>sent_disable_msg := False\<rparr>,
              \<lparr>linear_x = lx, linear_y = ly, linear_z = lz,
               angular_x = ax, angular_y = ay, angular_z = az\<rparr>)
      })"

subsection \<open>\<open>joyCallback\<close>\<close>

text \<open>
  Lines 459-467: the guarded edge detection on the autorun button. The subtraction is
  the 64-bit one of the source (the \<open>int32_t\<close> button value is promoted).
\<close>

definition autorun_toggle :: "Impl \<Rightarrow> Joy \<Rightarrow> Impl option" where
  "autorun_toggle impl joy_msg =
     (if enable_autorun_button impl \<ge> 0 \<and>
         static_cast_int (length (buttons joy_msg)) > enable_autorun_button impl
      then do {
        autorun_button \<leftarrow> vec_at (buttons joy_msg) (enable_autorun_button impl);
        let impl1 = (if sint ((scast autorun_button :: 64 word) - autorun_buffer impl) > 0
                     then impl\<lparr>autorun_flag := (if autorun_flag impl then False else True)\<rparr>
                     else impl);
        Some (impl1\<lparr>autorun_buffer := scast autorun_button\<rparr>)
      }
      else Some impl)"

text \<open>
  \<open>size > idx && buttons[idx]\<close>: the subscript is evaluated only when the size test
  holds (short-circuit \<open>&&\<close>), and a button counts as pressed when its value is non-zero.
\<close>

definition button_pressed :: "Joy \<Rightarrow> int \<Rightarrow> bool option" where
  "button_pressed joy_msg idx =
     (if static_cast_int (length (buttons joy_msg)) > idx
      then do { b \<leftarrow> vec_at (buttons joy_msg) idx; Some (b \<noteq> 0) }
      else Some False)"

text \<open>Lines 498-504: the single no-motion command of a disabled interval.\<close>

definition stop_robot :: "Impl \<Rightarrow> Impl \<times> Twist option" where
  "stop_robot impl =
     (if \<not> sent_disable_msg impl then (impl\<lparr>sent_disable_msg := True\<rparr>, Some zero_twist)
      else (impl, None))"

definition publish :: "(Impl \<times> Twist) option \<Rightarrow> (Impl \<times> Twist option) option" where
  "publish r = map_option (\<lambda>(impl, msg). (impl, Some msg)) r"

text \<open>Lines 471-475: the ramp target is cleared on every sample that is not autorun.\<close>

definition reset_speed :: "Impl \<Rightarrow> Impl" where
  "reset_speed impl = (if \<not> autorun_flag impl then impl\<lparr>speed_x_max := Finite 0\<rparr> else impl)"

text \<open>
  The callback returns the new member state and the message handed to the publisher, if
  any. Line 469 is the \<open>RCLCPP_INFO\<close> statement. The macro is defined outside this
  file: it evaluates its arguments when the logger is enabled for severity INFO (the
  default), which is the parameter \<open>info_enabled\<close>. Its first argument is
  \<open>joy_msg->buttons[enable_autorun_button]\<close>, outside the guard of line 459.
\<close>

definition joyCallback :: "bool \<Rightarrow> Impl \<Rightarrow> Joy \<Rightarrow> (Impl \<times> Twist option) option" where
  "joyCallback info_enabled impl joy_msg = do {
     impl1 \<leftarrow> autorun_toggle impl joy_msg;
     logged \<leftarrow> (if info_enabled
                then map_option Some (vec_at (buttons joy_msg) (enable_autorun_button impl1))
                else Some None);
     let impl2 = reset_speed impl1;
     if autorun_flag impl2 then publish (sendCmdVelMsg impl2 joy_msg ''autorun'')
     else do {
       turbo \<leftarrow> (if enable_turbo_button impl2 \<ge> 0
                 then button_pressed joy_msg (enable_turbo_button impl2) else Some False);
       if turbo then publish (sendCmdVelMsg impl2 joy_msg ''turbo'')
       else do {
         normal \<leftarrow> (if \<not> require_enable_button impl2 then Some True
                    else button_pressed joy_msg (enable_button impl2));
         if normal then publish (sendCmdVelMsg impl2 joy_msg ''normal'')
         else Some (stop_robot impl2)
       }
     }
   }"

subsection \<open>The constructor's defaults\<close>

text \<open>Lines 89-200: the member values when no parameter is overridden.\<close>

definition default_impl :: Impl where
  "default_impl = \<lparr>
     require_enable_button = True,
     autorun_flag = False,
     enable_button = 5,
     enable_turbo_button = -1,
     enable_autorun_button = -1,
     autorun_buffer = 0,
     axis_linear_map = [''x'' \<mapsto> 5, ''y'' \<mapsto> -1, ''z'' \<mapsto> -1],
     scale_linear_map =
       [''normal'' \<mapsto> [''x'' \<mapsto> Finite 0.5, ''y'' \<mapsto> Finite 0, ''z'' \<mapsto> Finite 0],
        ''turbo'' \<mapsto> [''x'' \<mapsto> Finite 1, ''y'' \<mapsto> Finite 0, ''z'' \<mapsto> Finite 0],
        ''autorun'' \<mapsto> [''x'' \<mapsto> Finite 1, ''y'' \<mapsto> Finite 0, ''z'' \<mapsto> Finite 0]],
     axis_angular_map = [''yaw'' \<mapsto> 2, ''pitch'' \<mapsto> -1, ''roll'' \<mapsto> -1],
     axis_angular_adjustment_map = [''yaw'' \<mapsto> 3, ''pitch'' \<mapsto> -1, ''roll'' \<mapsto> -1],
     scale_angular_map =
       [''normal'' \<mapsto> [''yaw'' \<mapsto> Finite 0.5, ''pitch'' \<mapsto> Finite 0, ''roll'' \<mapsto> Finite 0],
        ''turbo'' \<mapsto> [''yaw'' \<mapsto> Finite 1, ''pitch'' \<mapsto> Finite 0, ''roll'' \<mapsto> Finite 0],
        ''autorun'' \<mapsto> [''yaw'' \<mapsto> Finite 1, ''pitch'' \<mapsto> Finite 0, ''roll'' \<mapsto> Finite 0]],
     speed_x_max = Finite 0,
     sent_disable_msg = False\<rparr>"

section \<open>The parameter callback\<close>

text \<open>
  Modelled from the spec: the parameter update and its result. \<open>rclcpp::Parameter\<close>
  and \<open>rcl_interfaces::msg::SetParametersResult\<close> are declared outside this file. A
  parameter is a name with a value of one kind (boolean, integer, floating, string or
  an array of these); \<open>get_value<K>\<close> throws when the kind is not \<open>K\<close>, which is
  the value \<open>None\<close> here.
\<close>

datatype ParameterType =
    PARAMETER_NOT_SET | PARAMETER_BOOL | PARAMETER_INTEGER | PARAMETER_DOUBLE
  | PARAMETER_STRING | PARAMETER_BYTE_ARRAY | PARAMETER_BOOL_ARRAY
  | PARAMETER_INTEGER_ARRAY | PARAMETER_DOUBLE_ARRAY | PARAMETER_STRING_ARRAY

datatype ParameterValue =
    NotSet | BoolValue bool | IntegerValue int | DoubleValue fp | StringValue string
  | ByteArrayValue "8 word list" | BoolArrayValue "bool list" | IntegerArrayValue "int list"
  | DoubleArrayValue "fp list" | StringArrayValue "string list"

record Parameter =
  get_name :: string
  get_parameter_value :: ParameterValue

record SetParametersResult =
  successful :: bool
  reason :: string

fun type_of_value :: "ParameterValue \<Rightarrow> ParameterType" where
  "type_of_value NotSet = PARAMETER_NOT_SET"
| "type_of_value (BoolValue _) = PARAMETER_BOOL"
| "type_of_value (IntegerValue _) = PARAMETER_INTEGER"
| "type_of_value (DoubleValue _) = PARAMETER_DOUBLE"
| "type_of_value (StringValue _) = PARAMETER_STRING"
| "type_of_value (ByteArrayValue _) = PARAMETER_BYTE_ARRAY"
| "type_of_value (BoolArrayValue _) = PARAMETER_BOOL_ARRAY"
| "type_of_value (IntegerArrayValue _) = PARAMETER_INTEGER_ARRAY"
| "type_of_value (DoubleArrayValue _) = PARAMETER_DOUBLE_ARRAY"
| "type_of_value (StringArrayValue _) = PARAMETER_STRING_ARRAY"

definition get_type :: "Parameter \<Rightarrow> ParameterType" where
  "get_type parameter = type_of_value (get_parameter_value parameter)"

definition get_value_bool :: "Parameter \<Rightarrow> bool option" where
  "get_value_bool parameter =
     (case get_parameter_value parameter of BoolValue b \<Rightarrow> Some b | _ \<Rightarrow> None)"

definition get_value_integer :: "Parameter \<Rightarrow> int option" where
  "get_value_integer parameter =
     (case get_parameter_value parameter of IntegerValue i \<Rightarrow> Some i | _ \<Rightarrow> None)"

definition get_value_double :: "Parameter \<Rightarrow> fp option" where
  "get_value_double parameter =
     (case get_parameter_value parameter of DoubleValue d \<Rightarrow> Some d | _ \<Rightarrow> None)"

text \<open>Lines 205-215: the three static name sets.\<close>

definition intparams :: "string set" where
  "intparams = {''axis_linear.x'', ''axis_linear.y'', ''axis_linear.z'',
                ''axis_angular.yaw'', ''axis_angular.pitch'', ''axis_angular.roll'',
                ''axis_angular_adjustment.yaw'', ''axis_angular_adjustment.pitch'',
                ''axis_angular_adjustment.roll'',
                ''enable_button'', ''enable_turbo_button'', ''enable_autorun_button''}"

definition doubleparams :: "string set" where
  "doubleparams = {''scale_linear.x'', ''scale_linear.y'', ''scale_linear.z'',
                   ''scale_linear_turbo.x'', ''scale_linear_turbo.y'', ''scale_linear_turbo.z'',
                   ''scale_linear_autorun.x'', ''scale_linear_autorun.y'',
                   ''scale_linear_autorun.z'',
                   ''scale_angular.yaw'', ''scale_angular.pitch'', ''scale_angular.roll'',
                   ''scale_angular_turbo.yaw'', ''scale_angular_turbo.pitch'',
                   ''scale_angular_turbo.roll'',
                   ''scale_angular_autorun.yaw'', ''scale_angular_autorun.pitch'',
                   ''scale_angular_autorun.roll''}"

definition boolparams :: "string set" where
  "boolparams = {''require_enable_button''}"

text \<open>The reason strings of lines 226, 236 and 246; \<open>CHR 0x27\<close> is the single quote.\<close>

definition only_values :: "string \<Rightarrow> string \<Rightarrow> string" where
  "only_values kind n =
     ''Only '' @ kind @ '' values can be set for '' @ [CHR 0x27] @ n @ [CHR 0x27] @ ''.''"

text \<open>Lines 220-252: the first loop; it returns the reason of the first mismatch.\<close>

fun check_types :: "Parameter list \<Rightarrow> string option" where
  "check_types [] = None"
| "check_types (parameter # parameters) =
     (if get_name parameter \<in> intparams then
        (if get_type parameter \<noteq> PARAMETER_INTEGER
         then Some (only_values ''integer'' (get_name parameter))
         else check_types parameters)
      else if get_name parameter \<in> doubleparams then
        (if get_type parameter \<noteq> PARAMETER_DOUBLE
         then Some (only_values ''double'' (get_name parameter))
         else check_types parameters)
      else if get_name parameter \<in> boolparams then
        (if get_type parameter \<noteq> PARAMETER_BOOL
         then Some (only_values ''boolean'' (get_name parameter))
         else check_types parameters)
      else check_types parameters)"

text \<open>\<open>m[a][b] = v\<close> on a scale map.\<close>

definition scale_assign :: "(string \<rightharpoonup> (string \<rightharpoonup> fp)) \<Rightarrow> string \<Rightarrow> string \<Rightarrow> fp
    \<Rightarrow> (string \<rightharpoonup> (string \<rightharpoonup> fp))" where
  "scale_assign m a b v = (let (inner, m1) = scale_index m a in m1(a \<mapsto> inner(b \<mapsto> v)))"

text \<open>
  Lines 257-380: the body of the second loop. The test for \<open>require_enable_button\<close>
  is an \<open>if\<close> of its own; the chain of \<open>else if\<close> starts at \<open>enable_button\<close>.
\<close>

definition assign_parameter :: "Impl \<Rightarrow> Parameter \<Rightarrow> Impl option" where
  "assign_parameter impl parameter = do {
     impl1 \<leftarrow> (if get_name parameter = ''require_enable_button''
               then map_option (\<lambda>v. impl\<lparr>require_enable_button := v\<rparr>)
                      (get_value_bool parameter)
               else Some impl);
     if get_name parameter = ''enable_button'' then
         map_option (\<lambda>v. impl1\<lparr>enable_button := v\<rparr>) (get_value_integer parameter)
     else if get_name parameter = ''enable_turbo_button'' then
         map_option (\<lambda>v. impl1\<lparr>enable_turbo_button := v\<rparr>) (get_value_integer parameter)
     else if get_name parameter = ''enable_autorun_button'' then
         map_option (\<lambda>v. impl1\<lparr>enable_autorun_button := v\<rparr>) (get_value_integer parameter)
     else if get_name parameter = ''axis_linear.x'' then
         map_option (\<lambda>v. impl1\<lparr>axis_linear_map := (axis_linear_map impl1)(''x'' \<mapsto> v)\<rparr>)
           (get_value_integer parameter)
     else if get_name parameter = ''axis_linear.y'' then
         map_option (\<lambda>v. impl1\<lparr>axis_linear_map := (axis_linear_map impl1)(''y'' \<mapsto> v)\<rparr>)
           (get_value_integer parameter)
     else if get_name parameter = ''axis_linear.z'' then
         map_option (\<lambda>v. impl1\<lparr>axis_linear_map := (axis_linear_map impl1)(''z'' \<mapsto> v)\<rparr>)
           (get_value_integer parameter)
     else if get_name parameter = ''axis_angular_adjustment.yaw'' then
         map_option (\<lambda>v. impl1\<lparr>axis_angular_adjustment_map := (axis_angular_adjustment_map impl1)(''yaw'' \<mapsto> v)\<rparr>)
           (get_value_integer parameter)
     else if get_name parameter = ''axis_angular_adjustment.pitch'' then
         map_option (\<lambda>v. impl1\<lparr>axis_angular_adjustment_map := (axis_angular_adjustment_map impl1)(''pitch'' \<mapsto> v)\<rparr>)
           (get_value_integer parameter)
     else if get_name parameter = ''axis_angular_adjustment.roll'' then
         map_option (\<lambda>v. impl1\<lparr>axis_angular_adjustment_map := (axis_angular_adjustment_map impl1)(''roll'' \<mapsto> v)\<rparr>)
           (get_value_integer parameter)
     else if get_name parameter = ''axis_angular.yaw'' then
         map_option (\<lambda>v. impl1\<lparr>axis_angular_map := (axis_angular_map impl1)(''yaw'' \<mapsto> v)\<rparr>)
           (get_value_integer parameter)
     else if get_name parameter = ''axis_angular.pitch'' then
         map_option (\<lambda>v. impl1\<lparr>axis_angular_map := (axis_angular_map impl1)(''pitch'' \<mapsto> v)\<rparr>)
           (get_value_integer parameter)
     else if get_name parameter = ''axis_angular.roll'' then
         map_option (\<lambda>v. impl1\<lparr>axis_angular_map := (axis_angular_map impl1)(''roll'' \<mapsto> v)\<rparr>)
           (get_value_integer parameter)
     else if get_name parameter = ''scale_linear_autorun.x'' then
         map_option (\<lambda>v. impl1\<lparr>scale_linear_map := scale_assign (scale_linear_map impl1) ''autorun'' ''x'' v\<rparr>)
           (get_value_double parameter)
     else if get_name parameter = ''scale_linear_autorun.y'' then
         map_option (\<lambda>v. impl1\<lparr>scale_linear_map := scale_assign (scale_linear_map impl1) ''autorun'' ''y'' v\<rparr>)
           (get_value_double parameter)
     else if get_name parameter = ''scale_linear_autorun.z'' then
         map_option (\<lambda>v. impl1\<lparr>scale_linear_map := scale_assign (scale_linear_map impl1) ''autorun'' ''z'' v\<rparr>)
           (get_value_double parameter)
     else if get_name parameter = ''scale_linear_turbo.x'' then
         map_option (\<lambda>v. impl1\<lparr>scale_linear_map := scale_assign (scale_linear_map impl1) ''turbo'' ''x'' v\<rparr>)
           (get_value_double parameter)
     else if get_name parameter = ''scale_linear_turbo.y'' then
         map_option (\<lambda>v. impl1\<lparr>scale_linear_map := scale_assign (scale_linear_map impl1) ''turbo'' ''y'' v\<rparr>)
           (get_value_double parameter)
     else if get_name parameter = ''scale_linear_turbo.z'' then
         map_option (\<lambda>v. impl1\<lparr>scale_linear_map := scale_assign (scale_linear_map impl1) ''turbo'' ''z'' v\<rparr>)
           (get_value_double parameter)
     else if get_name parameter = ''scale_linear.x'' then
         map_option (\<lambda>v. impl1\<lparr>scale_linear_map := scale_assign (scale_linear_map impl1) ''normal'' ''x'' v\<rparr>)
           (get_value_double parameter)
     else if get_name parameter = ''scale_linear.y'' then
         map_option (\<lambda>v. impl1\<lparr>scale_linear_map := scale_assign (scale_linear_map impl1) ''normal'' ''y'' v\<rparr>)
           (get_value_double parameter)
     else if get_name parameter = ''scale_linear.z'' then
         map_option (\<lambda>v. impl1\<lparr>scale_linear_map := scale_assign (scale_linear_map impl1) ''normal'' ''z'' v\<rparr>)
           (get_value_double parameter)
     else if get_name parameter = ''scale_angular_autorun.yaw'' then
         map_option (\<lambda>v. impl1\<lparr>scale_angular_map := scale_assign (scale_angular_map impl1) ''autorun'' ''yaw'' v\<rparr>)
           (get_value_double parameter)
     else if get_name parameter = ''scale_angular_autorun.pitch'' then
         map_option (\<lambda>v. impl1\<lparr>scale_angular_map := scale_assign (scale_angular_map impl1) ''autorun'' ''pitch'' v\<rparr>)
           (get_value_double parameter)
     else if get_name parameter = ''scale_angular_autorun.roll'' then
         map_option (\<lambda>v. impl1\<lparr>scale_angular_map := scale_assign (scale_angular_map impl1) ''autorun'' ''roll'' v\<rparr>)
           (get_value_double parameter)
     else if get_name parameter = ''scale_angular_turbo.yaw'' then
         map_option (\<lambda>v. impl1\<lparr>scale_angular_map := scale_assign (scale_angular_map impl1) ''turbo'' ''yaw'' v\<rparr>)
           (get_value_double parameter)
     else if get_name parameter = ''scale_angular_turbo.pitch'' then
         map_option (\<lambda>v. impl1\<lparr>scale_angular_map := scale_assign (scale_angular_map impl1) ''turbo'' ''pitch'' v\<rparr>)
           (get_value_double parameter)
     else if get_name parameter = ''scale_angular_turbo.roll'' then
         map_option (\<lambda>v. impl1\<lparr>scale_angular_map := scale_assign (scale_angular_map impl1) ''turbo'' ''roll'' v\<rparr>)
           (get_value_double parameter)
     else if get_name parameter = ''scale_angular.yaw'' then
         map_option (\<lambda>v. impl1\<lparr>scale_angular_map := scale_assign (scale_angular_map impl1) ''normal'' ''yaw'' v\<rparr>)
           (get_value_double parameter)
     else if get_name parameter = ''scale_angular.pitch'' then
         map_option (\<lambda>v. impl1\<lparr>scale_angular_map := scale_assign (scale_angular_map impl1) ''normal'' ''pitch'' v\<rparr>)
           (get_value_double parameter)
     else if get_name parameter = ''scale_angular.roll'' then
         map_option (\<lambda>v. impl1\<lparr>scale_angular_map := scale_assign (scale_angular_map impl1) ''normal'' ''roll'' v\<rparr>)
           (get_value_double parameter)
     else Some impl1
   }"

fun assign_parameters :: "Impl \<Rightarrow> Parameter list \<Rightarrow> Impl option" where
  "assign_parameters impl [] = Some impl"
| "assign_parameters impl (parameter # parameters) =
     do { impl1 \<leftarrow> assign_parameter impl parameter; assign_parameters impl1 parameters }"

text \<open>Lines 202-383. A rejected batch returns before the second loop.\<close>

definition param_callback :: "Impl \<Rightarrow> Parameter list \<Rightarrow> (Impl \<times> SetParametersResult) option" where
  "param_callback impl parameters =
     (case check_types parameters of
        Some r \<Rightarrow> Some (impl, \<lparr>successful = False, reason = r\<rparr>)
      | None \<Rightarrow>
          map_option (\<lambda>impl1. (impl1, \<lparr>successful = True, reason = []\<rparr>))
            (assign_parameters impl parameters))"

section \<open>Runs of the callback\<close>

text \<open>
  The subscription delivers the samples one after the other; each call starts from the
  member state the previous one left. A run lists, per sample, the state after the call
  and the message published by it.
\<close>

fun run :: "bool \<Rightarrow> Impl \<Rightarrow> Joy list \<Rightarrow> (Impl \<times> Twist option) list option" where
  "run info_enabled impl [] = Some []"
| "run info_enabled impl (joy_msg # rest) = do {
     (impl1, out) \<leftarrow> joyCallback info_enabled impl joy_msg;
     tr \<leftarrow> run info_enabled impl1 rest;
     Some ((impl1, out) # tr)
   }"

section \<open>The notions of the specification\<close>

text \<open>
  The definitions of this section follow the words of the specification, to be compared
  with the functions above. An index is within range of a sequence when it is one of its
  positions; a button is pressed when it is within range and its value is not zero.
\<close>

datatype Mode = Autorun | Turbo | Normal | Disabled

definition in_range :: "int \<Rightarrow> 'a list \<Rightarrow> bool" where
  "in_range i xs = (0 \<le> i \<and> i < int (length xs))"

definition pressed :: "Joy \<Rightarrow> int \<Rightarrow> bool" where
  "pressed joy_msg i = (in_range i (buttons joy_msg) \<and> buttons joy_msg ! nat i \<noteq> 0)"

text \<open>
  The priority order of the specification (section 4.2, steps 2 to 5), on the state that
  the edge detection of step 1 has left.
\<close>

definition spec_mode :: "Impl \<Rightarrow> Joy \<Rightarrow> Mode" where
  "spec_mode impl joy_msg =
     (if autorun_flag impl then Autorun
      else if 0 \<le> enable_turbo_button impl \<and> pressed joy_msg (enable_turbo_button impl)
        then Turbo
      else if \<not> require_enable_button impl \<or> pressed joy_msg (enable_button impl)
        then Normal
      else Disabled)"

text \<open>
  What processing a sample in a mode is: the command built with that mode's scale table,
  or the stop logic.
\<close>

fun process_as :: "Mode \<Rightarrow> Impl \<Rightarrow> Joy \<Rightarrow> (Impl \<times> Twist option) option" where
  "process_as Autorun impl joy_msg = publish (sendCmdVelMsg impl joy_msg ''autorun'')"
| "process_as Turbo impl joy_msg = publish (sendCmdVelMsg impl joy_msg ''turbo'')"
| "process_as Normal impl joy_msg = publish (sendCmdVelMsg impl joy_msg ''normal'')"
| "process_as Disabled impl joy_msg = Some (stop_robot impl)"

text \<open>
  The two autorun limits, as lines 421 and 435 compute them: the products
  \<open>1.0f * scale_linear_map["autorun"]["x"]\<close> and
  \<open>1.0f * scale_angular_map["autorun"]["yaw"]\<close>, stored in a \<open>float_t\<close>.
\<close>

definition x_limit :: "Impl \<Rightarrow> fp" where
  "x_limit impl =
     to_float (fmul64 (Finite 1) (fst (scale_index2 (scale_linear_map impl) ''autorun'' ''x'')))"

definition yaw_limit :: "Impl \<Rightarrow> fp" where
  "yaw_limit impl =
     to_float (fmul64 (Finite 1) (fst (scale_index2 (scale_angular_map impl) ''autorun'' ''yaw'')))"

text \<open>The value \<open>m[a][b]\<close> reads, without the insertion.\<close>

definition scale_lookup :: "(string \<rightharpoonup> (string \<rightharpoonup> fp)) \<Rightarrow> string \<Rightarrow> string \<Rightarrow> fp" where
  "scale_lookup m a b =
     (case m a of None \<Rightarrow> Finite 0
      | Some inner \<Rightarrow> (case inner b of None \<Rightarrow> Finite 0 | Some v \<Rightarrow> v))"


text \<open>An axis map whose indices are all the sentinel \<open>-1\<close> or non-negative.\<close>

definition axes_configured :: "(string \<rightharpoonup> int) \<Rightarrow> bool" where
  "axes_configured axis_map = (\<forall>i \<in> ran axis_map. -1 \<le> i)"

text \<open>
  The configuration surface of the specification (section 6): the options and the kind of
  value each takes.
\<close>

definition integer_options :: "string list" where
  "integer_options =
     [''enable_button'', ''enable_turbo_button'', ''enable_autorun_button'']
     @ [''axis_linear.'' @ a. a \<leftarrow> [''x'', ''y'', ''z'']]
     @ [g @ ''.'' @ a. g \<leftarrow> [''axis_angular'', ''axis_angular_adjustment''],
                      a \<leftarrow> [''yaw'', ''pitch'', ''roll'']]"

definition double_options :: "string list" where
  "double_options =
     [''scale_linear'' @ m @ ''.'' @ a. m \<leftarrow> ['''', ''_turbo'', ''_autorun''],
                                       a \<leftarrow> [''x'', ''y'', ''z'']]
     @ [''scale_angular'' @ m @ ''.'' @ a. m \<leftarrow> ['''', ''_turbo'', ''_autorun''],
                                          a \<leftarrow> [''yaw'', ''pitch'', ''roll'']]"

definition expected_kind :: "string \<Rightarrow> ParameterType option" where
  "expected_kind n =
     (if n = ''require_enable_button'' then Some PARAMETER_BOOL
      else if n \<in> set integer_options then Some PARAMETER_INTEGER
      else if n \<in> set double_options then Some PARAMETER_DOUBLE
      else None)"

definition mismatched :: "Parameter \<Rightarrow> bool" where
  "mismatched parameter =
     (case expected_kind (get_name parameter) of
        Some k \<Rightarrow> get_type parameter \<noteq> k
      | None \<Rightarrow> False)"

section \<open>Concrete configurations and samples\<close>

text \<open>
  A gamepad with six axes and six buttons. Button 0 toggles autorun, button 4 is turbo,
  button 5 (the default) enables; the axes keep their default assignment: forward on
  axis 5, yaw on axis 2, the yaw adjustment on axis 3. The axis values are \<open>float\<close>
  values.
\<close>

definition cruise_impl :: Impl where
  "cruise_impl = default_impl\<lparr>enable_turbo_button := 4, enable_autorun_button := 0\<rparr>"

definition stick :: "fp list" where
  "stick = [Finite 0, Finite 0, Finite 0.25, Finite 1, Finite 0, Finite 1]"

definition centred :: "fp list" where
  "centred = [Finite 0, Finite 0, Finite 0, Finite 0, Finite 0, Finite 0]"

definition j_idle :: Joy where
  "j_idle = \<lparr>axes = stick, buttons = [0, 0, 0, 0, 0, 0]\<rparr>"

definition j_enable :: Joy where
  "j_enable = \<lparr>axes = stick, buttons = [0, 0, 0, 0, 0, 1]\<rparr>"

definition j_turbo :: Joy where
  "j_turbo = \<lparr>axes = stick, buttons = [0, 0, 0, 0, 1, 1]\<rparr>"

definition j_press :: Joy where
  "j_press = \<lparr>axes = stick, buttons = [1, 0, 0, 0, 0, 0]\<rparr>"

definition j_all :: Joy where
  "j_all = \<lparr>axes = stick, buttons = [1, 0, 0, 0, 1, 1]\<rparr>"

definition j_press_centred :: Joy where
  "j_press_centred = \<lparr>axes = centred, buttons = [1, 0, 0, 0, 0, 0]\<rparr>"

definition j_press_nan :: Joy where
  "j_press_nan =
     \<lparr>axes = [Finite 0, Finite 0, Finite 0, Finite 0, Finite 0, NaN],
      buttons = [1, 0, 0, 0, 0, 0]\<rparr>"

text \<open>The states and commands these samples lead to.\<close>

definition stopped_impl :: Impl where
  "stopped_impl = cruise_impl\<lparr>sent_disable_msg := True\<rparr>"

definition cruising :: "real \<Rightarrow> Impl" where
  "cruising v =
     cruise_impl\<lparr>autorun_flag := True, autorun_buffer := 1, speed_x_max := Finite v\<rparr>"

definition released :: "real \<Rightarrow> Impl" where
  "released v = (cruising v)\<lparr>autorun_buffer := 0\<rparr>"

definition parked_impl :: Impl where
  "parked_impl = cruise_impl\<lparr>autorun_buffer := 1, sent_disable_msg := True\<rparr>"

definition cmd :: "real \<Rightarrow> real \<Rightarrow> Twist" where
  "cmd x yaw = zero_twist\<lparr>linear_x := Finite x, angular_z := Finite yaw\<rparr>"

text \<open>
  The same gamepad with a required enable button of index \<open>-1\<close>, the value that
  stands for an unused button in the two other button options.
\<close>

definition unused_enable_impl :: Impl where
  "unused_enable_impl = cruise_impl\<lparr>enable_button := -1\<rparr>"

text \<open>
  The same gamepad with the autorun scale of the forward axis negative (an inverted
  axis), a sample that pulls the forward axis back, and the state both this sample and
  the one with centred sticks lead to.
\<close>

definition reversed_impl :: Impl where
  "reversed_impl = cruise_impl\<lparr>scale_linear_map :=
      scale_assign (scale_linear_map cruise_impl) ''autorun'' ''x'' (Finite (-1))\<rparr>"

definition j_press_back :: Joy where
  "j_press_back =
     \<lparr>axes = [Finite 0, Finite 0, Finite 0, Finite 0, Finite 0, Finite (-1)],
      buttons = [1, 0, 0, 0, 0, 0]\<rparr>"

definition reversed_cruising :: Impl where
  "reversed_cruising =
     reversed_impl\<lparr>autorun_flag := True, autorun_buffer := 1, speed_x_max := Finite 1\<rparr>"

text \<open>The same with the autorun scale of the yaw axis negative.\<close>

definition yaw_reversed_impl :: Impl where
  "yaw_reversed_impl = cruise_impl\<lparr>scale_angular_map :=
      scale_assign (scale_angular_map cruise_impl) ''autorun'' ''yaw'' (Finite (-1))\<rparr>"

definition yaw_reversed_cruising :: Impl where
  "yaw_reversed_cruising = yaw_reversed_impl\<lparr>autorun_flag := True, autorun_buffer := 1\<rparr>"

text \<open>
  A configuration whose autorun button index is past the six buttons of the gamepad,
  with a button value remembered from an earlier, longer sample.
\<close>

definition stale_impl :: Impl where
  "stale_impl = default_impl\<lparr>enable_autorun_button := 6, autorun_buffer := 1\<rparr>"

text \<open>Two batches of parameter updates.\<close>

definition bad_batch :: "Parameter list" where
  "bad_batch =
     [\<lparr>get_name = ''enable_button'', get_parameter_value = IntegerValue 4\<rparr>,
      \<lparr>get_name = ''scale_linear.x'', get_parameter_value = IntegerValue 1\<rparr>]"

definition good_batch :: "Parameter list" where
  "good_batch =
     [\<lparr>get_name = ''enable_autorun_button'', get_parameter_value = IntegerValue 0\<rparr>,
      \<lparr>get_name = ''scale_linear_autorun.x'', get_parameter_value = DoubleValue (Finite 2)\<rparr>,
      \<lparr>get_name = ''frame_id'', get_parameter_value = StringValue ''base''\<rparr>]"

section \<open>The rounding function\<close>

text \<open>
  The exponent found by \<open>exponent\<close> is the binary exponent, \<open>round_even\<close> gives a
  nearest integer and the even one at a tie, and so a finite result of \<open>round_to\<close> is a
  multiple of the spacing at the exponent of its argument that differs from the argument by
  at most half that spacing.
\<close>

lemma ilog2_nonneg: "0 \<le> ilog2 n"
  by (induction n rule: ilog2.induct) (subst ilog2.simps, simp)

lemma ilog2_bounds:
  "1 \<le> n \<Longrightarrow> 2 ^ nat (ilog2 n) \<le> n \<and> n < 2 ^ nat (ilog2 n + 1)"
proof (induction n rule: ilog2.induct)
  case (1 n)
  show ?case
  proof (cases "n < 2")
    case True
    then have "n = 1" using 1(2) by simp
    then show ?thesis by (simp add: ilog2.simps)
  next
    case False
    then have h: "1 \<le> n div 2" by simp
    from 1(1) [OF False h] have ih: "2 ^ nat (ilog2 (n div 2)) \<le> n div 2"
      "n div 2 < 2 ^ nat (ilog2 (n div 2) + 1)" by simp_all
    have e: "ilog2 n = 1 + ilog2 (n div 2)" using False by (subst ilog2.simps) simp
    have n0: "0 \<le> ilog2 (n div 2)" by (rule ilog2_nonneg)
    have p: "nat (1 + ilog2 (n div 2)) = Suc (nat (ilog2 (n div 2)))"
      "nat (1 + ilog2 (n div 2) + 1) = Suc (nat (ilog2 (n div 2) + 1))"
      using n0 by simp_all
    show ?thesis unfolding e p using ih by simp linarith
  qed
qed

lemma pow2_pos: "0 < pow2 k"
  by (simp add: pow2_def)

lemma pow2_nat: "0 \<le> k \<Longrightarrow> pow2 k = 2 ^ nat k"
  by (simp add: pow2_def)

lemma pow2_neg: "0 \<le> k \<Longrightarrow> pow2 (- k) = 1 / 2 ^ nat k"
  by (cases "k = 0") (simp_all add: pow2_def)

lemma exponent_bounds:
  assumes "0 < a"
  shows "pow2 (exponent a) \<le> a \<and> a < pow2 (exponent a + 1)"
proof (cases "1 \<le> a")
  case True
  then have f: "1 \<le> \<lfloor>a\<rfloor>" by simp
  from ilog2_bounds [OF f] have b: "2 ^ nat (ilog2 \<lfloor>a\<rfloor>) \<le> \<lfloor>a\<rfloor>"
     "\<lfloor>a\<rfloor> < 2 ^ nat (ilog2 \<lfloor>a\<rfloor> + 1)" by simp_all
  have "real_of_int (2 ^ nat (ilog2 \<lfloor>a\<rfloor>)) \<le> a"
    using b(1) by (meson le_floor_iff)
  moreover have "a < real_of_int (2 ^ nat (ilog2 \<lfloor>a\<rfloor> + 1))"
    using b(2) by (meson floor_less_iff)
  ultimately show ?thesis using True ilog2_nonneg [of "\<lfloor>a\<rfloor>"]
    by (simp add: exponent_def pow2_def)
next
  case False
  define m where "m = \<lceil>1 / a\<rceil> - 1"
  have a1: "1 < 1 / a" using False assms by simp
  then have m1: "1 \<le> m" unfolding m_def by (simp add: less_ceiling_iff)
  have lo: "real_of_int m < 1 / a" unfolding m_def using ceiling_correct [of "1 / a"] by simp
  have hi: "1 / a \<le> real_of_int m + 1" unfolding m_def using ceiling_correct [of "1 / a"] by simp
  from ilog2_bounds [OF m1] have b: "2 ^ nat (ilog2 m) \<le> m" "m < 2 ^ nat (ilog2 m + 1)" by simp_all
  have b2: "m + 1 \<le> 2 ^ nat (ilog2 m + 1)" using b(2) by simp
  have k: "0 \<le> ilog2 m" by (rule ilog2_nonneg)
  have e: "exponent a = - (ilog2 m + 1)" using False by (simp add: exponent_def m_def)
  have "1 / a \<le> 2 ^ nat (ilog2 m + 1)"
  proof -
    have "real_of_int (m + 1) \<le> real_of_int (2 ^ nat (ilog2 m + 1))" using b2 by (simp only: of_int_le_iff)
    then show ?thesis using hi by simp
  qed
  then have l: "1 / 2 ^ nat (ilog2 m + 1) \<le> a"
    using assms by (simp add: field_simps)
  have "real_of_int (2 ^ nat (ilog2 m)) \<le> real_of_int m" using b(1) by (simp only: of_int_le_iff)
  then have "(2::real) ^ nat (ilog2 m) \<le> real_of_int m" by simp
  then have "2 ^ nat (ilog2 m) < 1 / a" using lo by linarith
  then have u: "a < 1 / 2 ^ nat (ilog2 m)"
    using assms by (simp add: field_simps)
  have p1: "pow2 (exponent a) = 1 / 2 ^ nat (ilog2 m + 1)"
    unfolding e using pow2_neg [of "ilog2 m + 1"] k by simp
  have p2: "pow2 (exponent a + 1) = 1 / 2 ^ nat (ilog2 m)"
    unfolding e using pow2_neg [of "ilog2 m"] k by simp
  show ?thesis unfolding p1 p2 using l u by simp
qed

lemma round_even_nearest: "\<bar>of_int (round_even q) - q\<bar> \<le> 1 / 2"
  unfolding round_even_def Let_def by (auto simp: abs_if) linarith+

lemma round_even_tie: "q - of_int \<lfloor>q\<rfloor> = 1 / 2 \<Longrightarrow> even (round_even q)"
  by (simp add: round_even_def Let_def)

lemma round_even_exact: "round_even (of_int n) = n"
  by (simp add: round_even_def Let_def)

lemma round_to_nearest:
  assumes "x \<noteq> 0" and "round_to p e_min e_max x = Finite y"
  shows "\<bar>y - x\<bar> \<le> pow2 (max (exponent \<bar>x\<bar>) e_min - int p + 1) / 2"
    and "\<bar>y\<bar> = of_int (round_even (\<bar>x\<bar> / pow2 (max (exponent \<bar>x\<bar>) e_min - int p + 1)))
                 * pow2 (max (exponent \<bar>x\<bar>) e_min - int p + 1)"
proof -
  define ulp where "ulp = pow2 (max (exponent \<bar>x\<bar>) e_min - int p + 1)"
  define n where "n = round_even (\<bar>x\<bar> / ulp)"
  have u: "0 < ulp" unfolding ulp_def by (rule pow2_pos)
  have y: "y = (if 0 < x then of_int n * ulp else - (of_int n * ulp))"
    using assms unfolding round_to_def Let_def ulp_def [symmetric] n_def [symmetric]
    by (auto split: if_splits)
  have "\<bar>of_int n - \<bar>x\<bar> / ulp\<bar> \<le> 1 / 2" unfolding n_def by (rule round_even_nearest)
  then have "\<bar>of_int n - \<bar>x\<bar> / ulp\<bar> * ulp \<le> 1 / 2 * ulp"
    using u by (simp only: mult_le_cancel_right_pos)
  moreover have "\<bar>of_int n - \<bar>x\<bar> / ulp\<bar> * ulp = \<bar>of_int n * ulp - \<bar>x\<bar>\<bar>"
  proof -
    have "\<bar>of_int n - \<bar>x\<bar> / ulp\<bar> * ulp = \<bar>(of_int n - \<bar>x\<bar> / ulp) * ulp\<bar>"
      using u by (simp add: abs_mult)
    also have "(of_int n - \<bar>x\<bar> / ulp) * ulp = of_int n * ulp - \<bar>x\<bar>"
      using u by (simp add: field_simps)
    finally show ?thesis .
  qed
  ultimately have d: "\<bar>of_int n * ulp - \<bar>x\<bar>\<bar> \<le> ulp / 2" by simp
  show "\<bar>y - x\<bar> \<le> pow2 (max (exponent \<bar>x\<bar>) e_min - int p + 1) / 2"
    unfolding ulp_def [symmetric] using d y assms(1) by (auto simp: abs_if split: if_splits)
  have "0 \<le> n"
  proof -
    have "0 \<le> \<bar>x\<bar> / ulp" using u by simp
    then have "0 \<le> \<lfloor>\<bar>x\<bar> / ulp\<rfloor>" by simp
    then show ?thesis unfolding n_def round_even_def Let_def by auto
  qed
  then have "0 \<le> of_int n * ulp" using u by simp
  then show "\<bar>y\<bar> = of_int (round_even (\<bar>x\<bar> / pow2 (max (exponent \<bar>x\<bar>) e_min - int p + 1)))
                 * pow2 (max (exponent \<bar>x\<bar>) e_min - int p + 1)"
    unfolding ulp_def [symmetric] n_def [symmetric] using y by (auto simp: abs_if)
qed

subsection \<open>Evaluation\<close>

text \<open>
  The lemma below splits the evaluation of \<open>round_to\<close> into the exponent, the
  nearest multiple of the spacing and the overflow test, each of which is a computation on
  numerals.
\<close>

lemma round_to_finite:
  assumes "x \<noteq> 0" and "max (exponent \<bar>x\<bar>) e_min = e"
    and "round_even (\<bar>x\<bar> / pow2 (e - int p + 1)) = n"
    and "of_int n * pow2 (e - int p + 1) < pow2 (e_max + 1)"
  shows "round_to p e_min e_max x =
           Finite (if 0 < x then of_int n * pow2 (e - int p + 1)
                   else - (of_int n * pow2 (e - int p + 1)))"
proof -
  have "\<not> pow2 (e_max + 1) \<le> of_int n * pow2 (e - int p + 1)"
    using assms(4) by simp
  then show ?thesis
    unfolding round_to_def Let_def assms(2) assms(3) using assms(1) by simp
qed

lemma round_to_overflow:
  assumes "x \<noteq> 0" and "max (exponent \<bar>x\<bar>) e_min = e"
    and "round_even (\<bar>x\<bar> / pow2 (e - int p + 1)) = n"
    and "pow2 (e_max + 1) \<le> of_int n * pow2 (e - int p + 1)"
  shows "round_to p e_min e_max x = (if 0 < x then PInf else NInf)"
  unfolding round_to_def Let_def assms(2) assms(3) using assms(1) assms(4) by simp

lemma round32_zero: "round32 0 = Finite 0"
  by (simp add: round32_def round_to_def)

lemma round64_zero: "round64 0 = Finite 0"
  by (simp add: round64_def round_to_def)

text \<open>The values that occur in the scenarios below.\<close>

lemma round64_half: "round64 (1 / 2) = Finite (1 / 2)"
  unfolding round64_def
  by (subst round_to_finite [where e = "- 1" and n = 4503599627370496])
     (simp_all add: exponent_def ilog2.simps pow2_def round_even_def Let_def)

lemma round64_eighth: "round64 (1 / 8) = Finite (1 / 8)"
  unfolding round64_def
  by (subst round_to_finite [where e = "- 3" and n = 4503599627370496])
     (simp_all add: exponent_def ilog2.simps pow2_def round_even_def Let_def)

lemma round64_one: "round64 1 = Finite 1"
  unfolding round64_def
  by (subst round_to_finite [where e = "0" and n = 4503599627370496])
     (simp_all add: exponent_def ilog2.simps pow2_def round_even_def Let_def)

lemma round64_quarter: "round64 (1 / 4) = Finite (1 / 4)"
  unfolding round64_def
  by (subst round_to_finite [where e = "- 2" and n = 4503599627370496])
     (simp_all add: exponent_def ilog2.simps pow2_def round_even_def Let_def)

lemma round64_minus_one: "round64 (- 1) = Finite (- 1)"
  unfolding round64_def
  by (subst round_to_finite [where e = "0" and n = 4503599627370496])
     (simp_all add: exponent_def ilog2.simps pow2_def round_even_def Let_def)

lemma round64_two: "round64 2 = Finite 2"
  unfolding round64_def
  by (subst round_to_finite [where e = "1" and n = 4503599627370496])
     (simp_all add: exponent_def ilog2.simps pow2_def round_even_def Let_def)

lemma round32_half: "round32 (1 / 2) = Finite (1 / 2)"
  unfolding round32_def
  by (subst round_to_finite [where e = "- 1" and n = 8388608])
     (simp_all add: exponent_def ilog2.simps pow2_def round_even_def Let_def)

lemma round32_eighth: "round32 (1 / 8) = Finite (1 / 8)"
  unfolding round32_def
  by (subst round_to_finite [where e = "- 3" and n = 8388608])
     (simp_all add: exponent_def ilog2.simps pow2_def round_even_def Let_def)

lemma round32_one: "round32 1 = Finite 1"
  unfolding round32_def
  by (subst round_to_finite [where e = "0" and n = 8388608])
     (simp_all add: exponent_def ilog2.simps pow2_def round_even_def Let_def)

lemma round32_quarter: "round32 (1 / 4) = Finite (1 / 4)"
  unfolding round32_def
  by (subst round_to_finite [where e = "- 2" and n = 8388608])
     (simp_all add: exponent_def ilog2.simps pow2_def round_even_def Let_def)

lemma round32_minus_one: "round32 (- 1) = Finite (- 1)"
  unfolding round32_def
  by (subst round_to_finite [where e = "0" and n = 8388608])
     (simp_all add: exponent_def ilog2.simps pow2_def round_even_def Let_def)

lemma round32_two: "round32 2 = Finite 2"
  unfolding round32_def
  by (subst round_to_finite [where e = "1" and n = 8388608])
     (simp_all add: exponent_def ilog2.simps pow2_def round_even_def Let_def)

lemma round32_five_quarters: "round32 (5 / 4) = Finite (5 / 4)"
  unfolding round32_def
  by (subst round_to_finite [where e = "0" and n = 10485760])
     (simp_all add: exponent_def ilog2.simps pow2_def round_even_def Let_def)

lemma round32_tenth: "round32 (1 / 10) = Finite (13421773 / 134217728)"
  unfolding round32_def
  by (subst round_to_finite [where e = "- 4" and n = 13421773])
     (simp_all add: exponent_def ilog2.simps pow2_def round_even_def Let_def)

lemma round32_step1: "round32 (13421773 / 134217728) = Finite (13421773 / 134217728)"
  unfolding round32_def
  by (subst round_to_finite [where e = "- 4" and n = 13421773])
     (simp_all add: exponent_def ilog2.simps pow2_def round_even_def Let_def)

lemma round32_step2: "round32 (13421773 / 67108864) = Finite (13421773 / 67108864)"
  unfolding round32_def
  by (subst round_to_finite [where e = "- 3" and n = 13421773])
     (simp_all add: exponent_def ilog2.simps pow2_def round_even_def Let_def)

lemma round32_step3: "round32 (40265319 / 134217728) = Finite (5033165 / 16777216)"
  unfolding round32_def
  by (subst round_to_finite [where e = "- 2" and n = 10066330])
     (simp_all add: exponent_def ilog2.simps pow2_def round_even_def Let_def)

lemmas rounding = round32_zero round64_zero round64_half round64_eighth round64_one round64_quarter round64_minus_one round64_two round32_half round32_eighth round32_one round32_quarter round32_minus_one round32_two round32_five_quarters round32_tenth round32_step1 round32_step2 round32_step3

text \<open>
  Some values that are not representable, ties, the subnormal range and the overflow
  threshold of \<open>float\<close>: \<open>0.3\<close> becomes \<open>0.300000011920928955078125\<close> as a
  \<open>float\<close>.
\<close>

lemma round32_three_tenths: "round32 (3 / 10) = Finite (5033165 / 16777216)"
  unfolding round32_def
  by (subst round_to_finite [where e = "- 2" and n = 10066330])
     (simp_all add: exponent_def ilog2.simps pow2_def round_even_def Let_def)

lemma round64_three_tenths: "round64 (3 / 10) = Finite (5404319552844595 / 18014398509481984)"
  unfolding round64_def
  by (subst round_to_finite [where e = "- 2" and n = 5404319552844595])
     (simp_all add: exponent_def ilog2.simps pow2_def round_even_def Let_def)

lemma round64_tenth: "round64 (1 / 10) = Finite (3602879701896397 / 36028797018963968)"
  unfolding round64_def
  by (subst round_to_finite [where e = "- 4" and n = 7205759403792794])
     (simp_all add: exponent_def ilog2.simps pow2_def round_even_def Let_def)

lemma round32_tie_down: "round32 (1 + 1 / 2 ^ 24) = Finite 1"
  unfolding round32_def
  by (subst round_to_finite [where e = "0" and n = 8388608])
     (simp_all add: exponent_def ilog2.simps pow2_def round_even_def Let_def)

lemma round32_tie_up: "round32 (1 + 3 / 2 ^ 24) = Finite (1 + 1 / 2 ^ 22)"
  unfolding round32_def
  by (subst round_to_finite [where e = "0" and n = 8388610])
     (simp_all add: exponent_def ilog2.simps pow2_def round_even_def Let_def)

lemma round32_subnormal: "round32 (3 / 2 ^ 150) = Finite (1 / 2 ^ 148)"
  unfolding round32_def
  by (subst round_to_finite [where e = "- 126" and n = 2])
     (simp_all add: exponent_def ilog2.simps pow2_def round_even_def Let_def)

lemma round32_underflow: "round32 (1 / 2 ^ 150) = Finite 0"
  unfolding round32_def
  by (subst round_to_finite [where e = "- 126" and n = 0])
     (simp_all add: exponent_def ilog2.simps pow2_def round_even_def Let_def)

lemma round32_largest: "round32 (2 ^ 128 - 2 ^ 104) = Finite (2 ^ 128 - 2 ^ 104)"
  unfolding round32_def
  by (subst round_to_finite [where e = "127" and n = 16777215])
     (simp_all add: exponent_def ilog2.simps pow2_def round_even_def Let_def)

lemma round64_three_tenths_exact: "round64 (5404319552844595 / 18014398509481984) = Finite (5404319552844595 / 18014398509481984)"
  unfolding round64_def
  by (subst round_to_finite [where e = "- 2" and n = 5404319552844595])
     (simp_all add: exponent_def ilog2.simps pow2_def round_even_def Let_def)

lemma round32_three_tenths_double: "round32 (5404319552844595 / 18014398509481984) = Finite (5033165 / 16777216)"
  unfolding round32_def
  by (subst round_to_finite [where e = "- 2" and n = 10066330])
     (simp_all add: exponent_def ilog2.simps pow2_def round_even_def Let_def)

lemma round32_overflow: "round32 (2 ^ 128 - 2 ^ 103) = PInf"
  unfolding round32_def
  by (subst round_to_overflow [where e = "127" and n = 16777216])
     (simp_all add: exponent_def ilog2.simps pow2_def round_even_def Let_def)

text \<open>The limit of lines 425-426 on finite values, and on a NaN.\<close>

lemma limit_to_nonnegative:
  "0 \<le> L \<Longrightarrow> limit_to (Finite L) (Finite v) = Finite (max (- L) (min L v))"
  by (simp add: limit_to_def Let_def max_def min_def)

lemma limit_to_negative: "L < 0 \<Longrightarrow> limit_to (Finite L) (Finite v) = Finite (- L)"
  by (simp add: limit_to_def Let_def)

lemma limit_to_NaN: "limit_to L NaN = NaN"
  by (cases L) (simp_all add: limit_to_def Let_def)

lemma limit_to_within:
  "0 \<le> L \<Longrightarrow> limit_to (Finite L) v = Finite r \<Longrightarrow> - L \<le> r \<and> r \<le> L"
  by (cases v) (auto simp: limit_to_def Let_def split: if_splits)

section \<open>Basic facts about the access functions\<close>

lemma static_cast_int_small: "n < 2 ^ 31 \<Longrightarrow> static_cast_int n = int n"
  unfolding static_cast_int_def by (simp add: signed_take_bit_int_eq_self)

lemma static_cast_int_le: "static_cast_int n \<le> int n"
  unfolding static_cast_int_def by (simp add: signed_take_bit_int_less_eq_self_iff)

lemma vec_at_guarded:
  "0 \<le> i \<Longrightarrow> i < static_cast_int (length xs) \<Longrightarrow> vec_at xs i = Some (xs ! nat i)"
  using static_cast_int_le [of "length xs"] by (simp add: vec_at_def)


lemma fst_scale_index2: "fst (scale_index2 m a b) = scale_lookup m a b"
  by (simp add: scale_index2_def scale_index_def scale_lookup_def split: option.splits)

lemma scale_lookup_index [simp]: "scale_lookup (snd (scale_index m w)) a b = scale_lookup m a b"
  by (simp add: scale_index_def scale_lookup_def split: option.splits)

lemma scale_lookup_index2 [simp]: "scale_lookup (snd (scale_index2 m a' b')) a b = scale_lookup m a b"
  by (auto simp: scale_index2_def scale_index_def scale_lookup_def split: option.splits)

lemma fst_scale_index_again [simp]:
  "fst (scale_index (snd (scale_index m w)) w) = fst (scale_index m w)"
  by (simp add: scale_index_def split: option.splits)

lemma snd_scale_index_again [simp]:
  "snd (scale_index (snd (scale_index m w)) w) = snd (scale_index m w)"
  by (simp add: scale_index_def split: option.splits)

section \<open>The parts of the callback\<close>

lemma autorun_toggle_Some:
  "\<exists>impl1. autorun_toggle impl joy_msg = Some impl1"
  by (auto simp: autorun_toggle_def vec_at_guarded Let_def)

lemma autorun_toggle_frame:
  assumes "autorun_toggle impl joy_msg = Some impl1"
  shows "require_enable_button impl1 = require_enable_button impl"
    and "enable_button impl1 = enable_button impl"
    and "enable_turbo_button impl1 = enable_turbo_button impl"
    and "enable_autorun_button impl1 = enable_autorun_button impl"
    and "axis_linear_map impl1 = axis_linear_map impl"
    and "axis_angular_map impl1 = axis_angular_map impl"
    and "axis_angular_adjustment_map impl1 = axis_angular_adjustment_map impl"
    and "scale_linear_map impl1 = scale_linear_map impl"
    and "scale_angular_map impl1 = scale_angular_map impl"
    and "speed_x_max impl1 = speed_x_max impl"
    and "sent_disable_msg impl1 = sent_disable_msg impl"
  using assms
  by (auto simp: autorun_toggle_def Let_def split: if_splits Option.bind_splits)





lemma reset_speed_simps [simp]:
  "autorun_flag (reset_speed impl) = autorun_flag impl"
  "enable_turbo_button (reset_speed impl) = enable_turbo_button impl"
  "enable_button (reset_speed impl) = enable_button impl"
  "require_enable_button (reset_speed impl) = require_enable_button impl"
  "sent_disable_msg (reset_speed impl) = sent_disable_msg impl"
  by (simp_all add: reset_speed_def)

lemma spec_mode_reset [simp]: "spec_mode (reset_speed impl) joy_msg = spec_mode impl joy_msg"
  by (simp add: spec_mode_def)

lemma sendCmdVelMsg_frame:
  assumes "sendCmdVelMsg impl joy_msg w = Some (impl', tw)"
  shows "require_enable_button impl' = require_enable_button impl"
    and "autorun_flag impl' = autorun_flag impl"
    and "enable_button impl' = enable_button impl"
    and "enable_turbo_button impl' = enable_turbo_button impl"
    and "enable_autorun_button impl' = enable_autorun_button impl"
    and "autorun_buffer impl' = autorun_buffer impl"
    and "axis_linear_map impl' = axis_linear_map impl"
    and "axis_angular_map impl' = axis_angular_map impl"
    and "axis_angular_adjustment_map impl' = axis_angular_adjustment_map impl"
    and "sent_disable_msg impl' = False"
    and "x_limit impl' = x_limit impl"
    and "yaw_limit impl' = yaw_limit impl"
  using assms
  by (auto simp: sendCmdVelMsg_def Let_def split_beta x_limit_def yaw_limit_def fst_scale_index2
      split: if_splits Option.bind_splits)

lemma sendCmdVelMsg_manual:
  assumes "sendCmdVelMsg impl joy_msg w = Some (impl', tw)" "\<not> autorun_flag impl"
  shows "speed_x_max impl' = speed_x_max impl"
  using assms
  by (auto simp: sendCmdVelMsg_def Let_def split_beta split: if_splits Option.bind_splits)

lemma sendCmdVelMsg_ramp:
  assumes "sendCmdVelMsg impl joy_msg w = Some (impl', tw)" "autorun_flag impl"
  shows "\<exists>dx. getVal joy_msg (axis_linear_map impl) (fst (scale_index (scale_linear_map impl) w)) ''x'' = Some dx
           \<and> speed_x_max impl'
               = limit_to (x_limit impl) (fadd32 (speed_x_max impl) (fdiv10 (to_float dx)))
           \<and> linear_x tw = speed_x_max impl'"
  using assms
  by (auto simp: sendCmdVelMsg_def Let_def split_beta x_limit_def fst_scale_index2
      split: if_splits Option.bind_splits)

lemma sendCmdVelMsg_yaw:
  assumes "sendCmdVelMsg impl joy_msg w = Some (impl', tw)" "autorun_flag impl"
  shows "\<exists>yaw_primary yaw_adjust.
           getVal joy_msg (axis_angular_map impl) (fst (scale_index (scale_angular_map impl) w)) ''yaw'' = Some yaw_primary
         \<and> getVal joy_msg (axis_angular_adjustment_map impl) (fst (scale_index (scale_angular_map impl) w)) ''yaw'' = Some yaw_adjust
         \<and> angular_z tw
             = limit_to (yaw_limit impl) (fadd32 (to_float yaw_primary) (to_float yaw_adjust))"
  using assms
  by (auto simp: sendCmdVelMsg_def Let_def split_beta yaw_limit_def fst_scale_index2
      split: if_splits Option.bind_splits)

lemma joyCallback_branches:
  assumes "joyCallback info_enabled impl joy_msg = Some (impl', out)"
  obtains (sent) impl1 w tw where "autorun_toggle impl joy_msg = Some impl1"
      and "sendCmdVelMsg (reset_speed impl1) joy_msg w = Some (impl', tw)"
      and "out = Some tw" and "autorun_flag impl1 \<longleftrightarrow> w = ''autorun''"
  | (stopped) impl1 where "autorun_toggle impl joy_msg = Some impl1"
      and "\<not> autorun_flag impl1" and "(impl', out) = stop_robot (reset_speed impl1)"
  using assms
  by (auto simp: joyCallback_def Let_def publish_def split: if_splits Option.bind_splits)

lemma joyCallback_frame:
  assumes "joyCallback info_enabled impl joy_msg = Some (impl', out)"
  shows "require_enable_button impl' = require_enable_button impl"
    and "enable_button impl' = enable_button impl"
    and "enable_turbo_button impl' = enable_turbo_button impl"
    and "enable_autorun_button impl' = enable_autorun_button impl"
    and "axis_linear_map impl' = axis_linear_map impl"
    and "axis_angular_map impl' = axis_angular_map impl"
    and "axis_angular_adjustment_map impl' = axis_angular_adjustment_map impl"
    and "x_limit impl' = x_limit impl"
    and "yaw_limit impl' = yaw_limit impl"
proof -
  have "require_enable_button impl' = require_enable_button impl
    \<and> enable_button impl' = enable_button impl
    \<and> enable_turbo_button impl' = enable_turbo_button impl
    \<and> enable_autorun_button impl' = enable_autorun_button impl
    \<and> axis_linear_map impl' = axis_linear_map impl
    \<and> axis_angular_map impl' = axis_angular_map impl
    \<and> axis_angular_adjustment_map impl' = axis_angular_adjustment_map impl
    \<and> x_limit impl' = x_limit impl
    \<and> yaw_limit impl' = yaw_limit impl"
    using assms
  proof (cases rule: joyCallback_branches)
    case (sent impl1 w tw)
    show ?thesis
      using sendCmdVelMsg_frame [OF sent(2)] autorun_toggle_frame [OF sent(1)]
      by (simp add: reset_speed_def x_limit_def yaw_limit_def split: if_splits)
  next
    case (stopped impl1)
    show ?thesis
      using stopped(3) autorun_toggle_frame [OF stopped(1)]
      by (auto simp: stop_robot_def reset_speed_def x_limit_def yaw_limit_def split: if_splits)
  qed
  then show "require_enable_button impl' = require_enable_button impl"
    and "enable_button impl' = enable_button impl"
    and "enable_turbo_button impl' = enable_turbo_button impl"
    and "enable_autorun_button impl' = enable_autorun_button impl"
    and "axis_linear_map impl' = axis_linear_map impl"
    and "axis_angular_map impl' = axis_angular_map impl"
    and "axis_angular_adjustment_map impl' = axis_angular_adjustment_map impl"
    and "x_limit impl' = x_limit impl"
    and "yaw_limit impl' = yaw_limit impl" by simp_all
qed

lemma joyCallback_flag_buffer:
  assumes "joyCallback info_enabled impl joy_msg = Some (impl', out)"
    and "autorun_toggle impl joy_msg = Some impl1"
  shows "autorun_flag impl' = autorun_flag impl1" and "autorun_buffer impl' = autorun_buffer impl1"
proof -
  have "autorun_flag impl' = autorun_flag impl1 \<and> autorun_buffer impl' = autorun_buffer impl1"
    using assms(1)
  proof (cases rule: joyCallback_branches)
    case (sent i1 w tw)
    then show ?thesis using assms(2) sendCmdVelMsg_frame [OF sent(2)]
      by (simp add: reset_speed_def split: if_splits)
  next
    case (stopped i1)
    then show ?thesis using assms(2)
      by (auto simp: stop_robot_def reset_speed_def split: if_splits)
  qed
  then show "autorun_flag impl' = autorun_flag impl1" and "autorun_buffer impl' = autorun_buffer impl1"
    by simp_all
qed

section \<open>The scenarios, evaluated\<close>

text \<open>
  The callback on the concrete samples, computed by rewriting with the definitions and
  the rounded values above. The \<open>float\<close> nearest to \<open>0.1\<close> is
  \<open>13421773 / 134217728\<close>; adding it to itself gives \<open>13421773 / 67108864\<close>, and adding
  it once more gives, after rounding, \<open>5033165 / 16777216\<close>.
\<close>

lemmas callback_defs =
  joyCallback_def autorun_toggle_def reset_speed_def button_pressed_def publish_def
  sendCmdVelMsg_def scale_index_def scale_index2_def scale_assign_def getVal_def vec_at_def
  stop_robot_def limit_to_def static_cast_int_small zero_twist_def Let_def rounding

lemmas scenario_defs =
  default_impl_def cruise_impl_def stopped_impl_def cruising_def released_def parked_impl_def
  unused_enable_impl_def reversed_impl_def reversed_cruising_def yaw_reversed_impl_def
  yaw_reversed_cruising_def stale_impl_def cmd_def stick_def centred_def
  j_idle_def j_enable_def j_turbo_def j_press_def j_all_def j_press_back_def
  j_press_centred_def j_press_nan_def




lemma step_enable: "joyCallback True cruise_impl j_enable = Some (cruise_impl, Some (cmd (1/2) (1/8)))"
  by (simp add: callback_defs scenario_defs)


lemma step_turbo: "joyCallback True cruise_impl j_turbo = Some (cruise_impl, Some (cmd 1 (1/4)))"
  by (simp add: callback_defs scenario_defs)

lemma step_all:
  "joyCallback True cruise_impl j_all
     = Some (cruising (13421773/134217728), Some (cmd (13421773/134217728) 1))"
  by (simp add: callback_defs scenario_defs)

lemma step_press:
  "joyCallback True stopped_impl j_press
     = Some (cruising (13421773/134217728), Some (cmd (13421773/134217728) 1))"
  by (simp add: callback_defs scenario_defs)

lemma step_hold:
  "joyCallback True (cruising (13421773/134217728)) j_press
     = Some (cruising (13421773/67108864), Some (cmd (13421773/67108864) 1))"
  by (simp add: callback_defs scenario_defs)

lemma step_release:
  "joyCallback True (cruising (13421773/67108864)) j_idle
     = Some (released (5033165/16777216), Some (cmd (5033165/16777216) 1))"
  by (simp add: callback_defs scenario_defs)




lemma step_reversed_back:
  "joyCallback True reversed_impl j_press_back = Some (reversed_cruising, Some (cmd 1 0))"
  by (simp add: callback_defs scenario_defs)

lemma step_yaw_reversed:
  "joyCallback True yaw_reversed_impl j_press_centred
     = Some (yaw_reversed_cruising, Some (cmd 0 1))"
  by (simp add: callback_defs scenario_defs)

lemma step_nan:
  "joyCallback True stopped_impl j_press_nan
     = Some (cruise_impl\<lparr>autorun_flag := True, autorun_buffer := 1, speed_x_max := NaN\<rparr>,
             Some (zero_twist\<lparr>linear_x := NaN\<rparr>))"
  by (simp add: callback_defs scenario_defs)


lemma toggle_idle:
  "autorun_toggle cruise_impl j_enable = Some cruise_impl"
  "autorun_toggle cruise_impl j_turbo = Some cruise_impl"
  "autorun_toggle cruise_impl j_idle = Some cruise_impl"
  by (simp_all add: callback_defs scenario_defs)

lemma toggle_all:
  "autorun_toggle cruise_impl j_all = Some (cruise_impl\<lparr>autorun_flag := True, autorun_buffer := 1\<rparr>)"
  by (simp add: callback_defs scenario_defs)





lemma scenario_limits:
  "x_limit (cruising v) = Finite 1" "x_limit stopped_impl = Finite 1"
  "x_limit cruise_impl = Finite 1" "yaw_limit stopped_impl = Finite 1"
  "x_limit reversed_impl = Finite (-1)" "x_limit reversed_cruising = Finite (-1)"
  "yaw_limit yaw_reversed_impl = Finite (-1)"
  by (simp_all add: x_limit_def yaw_limit_def callback_defs scenario_defs)

text \<open>
  The limit is a \<open>float\<close>: for the scale \<open>0.3\<close>, which as a \<open>double\<close> is
  \<open>5404319552844595 / 18014398509481984\<close>, it is \<open>5033165 / 16777216\<close>, slightly more
  than the scale.
\<close>

lemma float_limit:
  "x_limit (cruise_impl\<lparr>scale_linear_map := scale_assign (scale_linear_map cruise_impl)
              ''autorun'' ''x'' (Finite (5404319552844595 / 18014398509481984))\<rparr>)
     = Finite (5033165 / 16777216)"
  by (simp add: x_limit_def callback_defs scenario_defs round64_three_tenths_exact
      round32_three_tenths_double)

lemma forward_input:
  "getVal j_press (axis_linear_map stopped_impl)
     (fst (scale_index (scale_linear_map stopped_impl) ''autorun'')) ''x'' = Some (Finite 1)"
  "getVal j_idle (axis_linear_map stopped_impl)
     (fst (scale_index (scale_linear_map stopped_impl) ''autorun'')) ''x'' = Some (Finite 1)"
  "getVal j_press_back (axis_linear_map reversed_impl)
     (fst (scale_index (scale_linear_map reversed_impl) ''autorun'')) ''x'' = Some (Finite 1)"
  "getVal j_press_centred (axis_linear_map reversed_impl)
     (fst (scale_index (scale_linear_map reversed_impl) ''autorun'')) ''x'' = Some (Finite 0)"
  by (simp_all add: callback_defs scenario_defs)

lemma yaw_inputs:
  "getVal j_press_centred (axis_angular_map yaw_reversed_impl)
     (fst (scale_index (scale_angular_map yaw_reversed_impl) ''autorun'')) ''yaw''
     = Some (Finite 0)"
  "getVal j_press_centred (axis_angular_adjustment_map yaw_reversed_impl)
     (fst (scale_index (scale_angular_map yaw_reversed_impl) ''autorun'')) ''yaw''
     = Some (Finite 0)"
  by (simp_all add: callback_defs scenario_defs)

lemma run_cruise:
  "run True stopped_impl [j_press, j_press, j_idle]
     = Some [(cruising (13421773/134217728), Some (cmd (13421773/134217728) 1)),
             (cruising (13421773/67108864), Some (cmd (13421773/67108864) 1)),
             (released (5033165/16777216), Some (cmd (5033165/16777216) 1))]"
  by (simp add: step_press step_hold step_release)



section \<open>Mode selection\<close>


text \<open>
  Claim C1 says that every sample is processed in the mode its order gives: Autorun when
  \<open>autorun_flag\<close> is set; otherwise Turbo when the turbo button is configured, within
  range and pressed; otherwise Normal when no enable button is required or the enable
  button is within range and pressed; otherwise Disabled. The code does not decide the
  last two cases that way when the required enable button has a negative index. With
  \<open>enable_button = -1\<close> and a sample of six buttons, none pressed, the enable button is
  not within range, so the order gives Disabled: the stop command. The code tests only
  the size at line 488 (\<open>6 > -1\<close>) and reads \<open>buttons[-1]\<close> at line 489; the tests
  of the autorun and turbo buttons (lines 459 and 481) start with \<open>>= 0\<close>.
\<close>

theorem negative_enable_button_read:
  "autorun_toggle unused_enable_impl j_idle = Some unused_enable_impl
 \<and> vec_at (buttons j_idle) (enable_autorun_button unused_enable_impl) = Some 0
 \<and> \<not> autorun_flag unused_enable_impl
 \<and> \<not> pressed j_idle (enable_turbo_button unused_enable_impl)
 \<and> require_enable_button unused_enable_impl
 \<and> enable_button unused_enable_impl = -1
 \<and> \<not> in_range (enable_button unused_enable_impl) (buttons j_idle)
 \<and> process_as Disabled (reset_speed unused_enable_impl) j_idle
      = Some (unused_enable_impl\<lparr>sent_disable_msg := True\<rparr>, Some zero_twist)
 \<and> button_pressed j_idle (enable_button unused_enable_impl) = None
 \<and> joyCallback True unused_enable_impl j_idle = None"
  by (simp add: callback_defs scenario_defs pressed_def in_range_def)

section \<open>Out-of-range reads\<close>

text \<open>
  Claim C2 says that for no configuration and no sample the callback reads \<open>axes\<close> or
  \<open>buttons\<close> outside their bounds. The code does: with the constructor's defaults
  (\<open>enable_autorun_button = -1\<close>) the log statement of line 469 reads
  \<open>buttons[-1]\<close>; an enable button of \<open>-1\<close> passes the size test of line 488 and is
  read at line 489; an axis index of \<open>-2\<close> passes the tests of \<open>getVal\<close> and is read
  at line 405. Each of the three calls below contains an out-of-range read.
\<close>

theorem unguarded_reads:
  "joyCallback True default_impl j_enable = None
 \<and> joyCallback False (default_impl\<lparr>enable_button := -1\<rparr>) j_idle = None
 \<and> joyCallback False (default_impl\<lparr>axis_linear_map := (axis_linear_map default_impl)(''x'' \<mapsto> -2)\<rparr>)
       j_enable = None"
  by (simp add: callback_defs scenario_defs)

lemma getVal_defined:
  assumes "axes_configured axis_map"
  shows "\<exists>v. getVal joy_msg axis_map scale_map fieldname = Some v"
proof (cases "axis_map fieldname")
  case None
  then show ?thesis by (simp add: getVal_def)
next
  case (Some i)
  then have "-1 \<le> i" using assms by (auto simp: axes_configured_def ran_def)
  then show ?thesis using Some
    by (auto simp: getVal_def vec_at_guarded split: option.splits)
qed

lemma sendCmdVelMsg_defined:
  assumes "axes_configured (axis_linear_map impl)" "axes_configured (axis_angular_map impl)"
    "axes_configured (axis_angular_adjustment_map impl)"
  shows "\<exists>r. sendCmdVelMsg impl joy_msg w = Some r"
proof -
  note g = getVal_defined [OF assms(1), of joy_msg] getVal_defined [OF assms(2), of joy_msg]
    getVal_defined [OF assms(3), of joy_msg]
  obtain sx where sx: "getVal joy_msg (axis_linear_map impl) (fst (scale_index (scale_linear_map impl) w)) ''x'' = Some sx"
    using g(1) by blast
  obtain sy where sy: "getVal joy_msg (axis_angular_map impl) (fst (scale_index (scale_angular_map impl) w)) ''yaw'' = Some sy"
    using g(2) by blast
  obtain ja where ja: "getVal joy_msg (axis_angular_adjustment_map impl) (fst (scale_index (scale_angular_map impl) w)) ''yaw'' = Some ja"
    using g(3) by blast
  show ?thesis
  proof (cases "autorun_flag impl")
    case True
    obtain ly where ly: "getVal joy_msg (axis_linear_map impl) (fst (scale_index (snd (scale_index2 (snd (scale_index (scale_linear_map impl) w)) ''autorun'' ''x'')) w)) ''y'' = Some ly"
      using g(1) by blast
    obtain lz where lz: "getVal joy_msg (axis_linear_map impl) (fst (scale_index (snd (scale_index2 (snd (scale_index (scale_linear_map impl) w)) ''autorun'' ''x'')) w)) ''z'' = Some lz"
      using g(1) by blast
    obtain ay where ay: "getVal joy_msg (axis_angular_map impl) (fst (scale_index (snd (scale_index2 (snd (scale_index (scale_angular_map impl) w)) ''autorun'' ''yaw'')) w)) ''pitch'' = Some ay"
      using g(2) by blast
    obtain ax where ax: "getVal joy_msg (axis_angular_map impl) (fst (scale_index (snd (scale_index2 (snd (scale_index (scale_angular_map impl) w)) ''autorun'' ''yaw'')) w)) ''roll'' = Some ax"
      using g(2) by blast
    show ?thesis using True sx sy ja ly lz ay ax
      by (simp add: sendCmdVelMsg_def Let_def split_beta)
  next
    case False
    obtain ly where ly: "getVal joy_msg (axis_linear_map impl) (fst (scale_index (scale_linear_map impl) w)) ''y'' = Some ly"
      using g(1) by blast
    obtain lz where lz: "getVal joy_msg (axis_linear_map impl) (fst (scale_index (scale_linear_map impl) w)) ''z'' = Some lz"
      using g(1) by blast
    obtain ay where ay: "getVal joy_msg (axis_angular_map impl) (fst (scale_index (scale_angular_map impl) w)) ''pitch'' = Some ay"
      using g(2) by blast
    obtain ax where ax: "getVal joy_msg (axis_angular_map impl) (fst (scale_index (scale_angular_map impl) w)) ''roll'' = Some ax"
      using g(2) by blast
    show ?thesis using False sx sy ly lz ay ax
      by (simp add: sendCmdVelMsg_def Let_def split_beta)
  qed
qed

lemma button_pressed_defined: "0 \<le> idx \<Longrightarrow> \<exists>b. button_pressed joy_msg idx = Some b"
  by (auto simp: button_pressed_def vec_at_guarded)

text \<open>
  The configurations for which no sample can cause an out-of-range read: the autorun
  button within range whenever the log statement evaluates its arguments, a non-negative
  enable button when one is required, and no axis index below the sentinel \<open>-1\<close>.
\<close>

lemma joyCallback_defined:
  assumes log: "info_enabled \<longrightarrow> in_range (enable_autorun_button impl) (buttons joy_msg)"
    and en: "require_enable_button impl \<longrightarrow> 0 \<le> enable_button impl"
    and ax: "axes_configured (axis_linear_map impl)" "axes_configured (axis_angular_map impl)"
      "axes_configured (axis_angular_adjustment_map impl)"
  shows "\<exists>r. joyCallback info_enabled impl joy_msg = Some r"
proof -
  obtain impl1 where t: "autorun_toggle impl joy_msg = Some impl1"
    using autorun_toggle_Some by blast
  note fr = autorun_toggle_frame [OF t]
  have lg: "(if info_enabled
                then map_option Some (vec_at (buttons joy_msg) (enable_autorun_button impl1))
                else Some None) \<noteq> None"
    using log fr by (auto simp: vec_at_def in_range_def)
  have ax2: "axes_configured (axis_linear_map (reset_speed impl1))"
     "axes_configured (axis_angular_map (reset_speed impl1))"
     "axes_configured (axis_angular_adjustment_map (reset_speed impl1))"
    using ax fr by (simp_all add: reset_speed_def)
  have send: "\<exists>r. publish (sendCmdVelMsg (reset_speed impl1) joy_msg w) = Some r" for w
    using sendCmdVelMsg_defined [OF ax2, of joy_msg w] by (auto simp: publish_def)
  have tb: "\<exists>b. (if enable_turbo_button impl1 \<ge> 0
                 then button_pressed joy_msg (enable_turbo_button impl1) else Some False) = Some b"
    using button_pressed_defined by auto
  have nb: "\<exists>b. (if \<not> require_enable_button impl1 then Some True
                    else button_pressed joy_msg (enable_button impl1)) = Some b"
    using button_pressed_defined en fr by auto
  from lg obtain lv where lv: "(if info_enabled
                then map_option Some (vec_at (buttons joy_msg) (enable_autorun_button impl1))
                else Some None) = Some lv" by blast
  from tb obtain tbv where tbv: "(if enable_turbo_button impl1 \<ge> 0
                 then button_pressed joy_msg (enable_turbo_button impl1) else Some False) = Some tbv" by blast
  from nb obtain nbv where nbv: "(if \<not> require_enable_button impl1 then Some True
                    else button_pressed joy_msg (enable_button impl1)) = Some nbv" by blast
  have "joyCallback info_enabled impl joy_msg =
          (if autorun_flag impl1 then publish (sendCmdVelMsg (reset_speed impl1) joy_msg ''autorun'')
           else if tbv then publish (sendCmdVelMsg (reset_speed impl1) joy_msg ''turbo'')
           else if nbv then publish (sendCmdVelMsg (reset_speed impl1) joy_msg ''normal'')
           else Some (stop_robot (reset_speed impl1)))"
    unfolding joyCallback_def t Let_def reset_speed_simps
    by (simp only: lv tbv nbv Option.bind.bind_lunit)
  then show ?thesis
    using send [of "''autorun''"] send [of "''turbo''"] send [of "''normal''"]
    by auto
qed

section \<open>The autorun toggle\<close>








section \<open>The ramp and the yaw limit\<close>


text \<open>
  Claim C6 gives the value of the ramp under a constant scaled input \<open>d\<close> as
  \<open>min (N * d / 10) limit\<close>. With the autorun scale at \<open>-1\<close> and the forward axis
  at \<open>-1\<close> the scaled input is \<open>d = 1\<close>; after one sample that formula gives
  \<open>min (1 / 10) (-1) = -1\<close>, and the code leaves \<open>speed_x_max\<close> at \<open>1\<close>: the two
  comparisons of lines 425-426 again, on a negative limit.
\<close>

theorem constant_input_ramp_negative_limit:
  "run True reversed_impl [j_press_back] = Some [(reversed_cruising, Some (cmd 1 0))]
 \<and> speed_x_max reversed_impl = Finite 0
 \<and> autorun_flag reversed_cruising
 \<and> getVal j_press_back (axis_linear_map reversed_impl)
       (fst (scale_index (scale_linear_map reversed_impl) ''autorun'')) ''x'' = Some (Finite 1)
 \<and> x_limit reversed_impl = Finite (-1)
 \<and> speed_x_max reversed_cruising = Finite 1
 \<and> Finite (min (real (length [j_press_back]) * 1 / 10) (-1)) = Finite (-1)"
  by (simp add: step_reversed_back forward_input scenario_limits) (simp add: scenario_defs)

lemma not_autorun_speed_zero:
  assumes run: "joyCallback info_enabled impl joy_msg = Some (impl', out)"
    and off: "\<not> autorun_flag impl'"
  shows "speed_x_max impl' = Finite 0"
  using run
proof (cases rule: joyCallback_branches)
  case (sent impl1 w tw)
  have f: "\<not> autorun_flag impl1"
    using joyCallback_flag_buffer(1) [OF run sent(1)] off by simp
  then have "\<not> autorun_flag (reset_speed impl1)" by simp
  from sendCmdVelMsg_manual [OF sent(2) this] f
  show ?thesis by (simp add: reset_speed_def)
next
  case (stopped impl1)
  then show ?thesis by (auto simp: stop_robot_def reset_speed_def split: if_splits)
qed

lemma autorun_step:
  assumes run: "joyCallback info_enabled impl joy_msg = Some (impl', out)"
    and on: "autorun_flag impl'"
  shows "\<exists>dx tw. getVal joy_msg (axis_linear_map impl)
                   (fst (scale_index (scale_linear_map impl) ''autorun'')) ''x'' = Some dx
           \<and> speed_x_max impl'
               = limit_to (x_limit impl) (fadd32 (speed_x_max impl) (fdiv10 (to_float dx)))
           \<and> out = Some tw \<and> linear_x tw = speed_x_max impl'"
  using run
proof (cases rule: joyCallback_branches)
  case (sent impl1 w tw)
  have f: "autorun_flag impl1"
    using joyCallback_flag_buffer(1) [OF run sent(1)] on by simp
  then have r: "autorun_flag (reset_speed impl1)" "reset_speed impl1 = impl1" "w = ''autorun''"
    using sent(4) by (simp_all add: reset_speed_def)
  from sendCmdVelMsg_ramp [OF sent(2) r(1)] autorun_toggle_frame [OF sent(1)] r sent(3)
  show ?thesis by (auto simp: x_limit_def)
next
  case (stopped impl1)
  then show ?thesis using joyCallback_flag_buffer(1) [OF run stopped(1)] on by simp
qed

text \<open>
  For a limit that is finite and not negative the two comparisons do what their comments
  say: a finite \<open>speed_x_max\<close> is within the limit after every sample.
\<close>

lemma ramp_speed_within_nonnegative_limit:
  assumes run: "joyCallback info_enabled impl joy_msg = Some (impl', out)"
    and lim: "x_limit impl' = Finite L" "0 \<le> L"
    and fin: "speed_x_max impl' = Finite v"
  shows "- L \<le> v \<and> v \<le> L"
proof (cases "autorun_flag impl'")
  case True
  from autorun_step [OF run True] joyCallback_frame(8) [OF run] lim(1) fin
  obtain s where "limit_to (Finite L) s = Finite v" by auto
  from limit_to_within [OF lim(2) this] show ?thesis .
next
  case False
  from not_autorun_speed_zero [OF run False] fin lim(2) show ?thesis by simp
qed



text \<open>
  In autorun the published \<open>angular.z\<close> is the \<open>float\<close> sum of the two yaw inputs
  passed through the comparisons of lines 437-438; for a limit that is finite and not
  negative a finite result is within the limit.
\<close>

lemma autorun_yaw_limited:
  assumes run: "joyCallback info_enabled impl joy_msg = Some (impl', out)"
    and on: "autorun_flag impl'"
  shows "\<exists>tw yaw_primary yaw_adjust.
           out = Some tw
         \<and> getVal joy_msg (axis_angular_map impl)
             (fst (scale_index (scale_angular_map impl) ''autorun'')) ''yaw'' = Some yaw_primary
         \<and> getVal joy_msg (axis_angular_adjustment_map impl)
             (fst (scale_index (scale_angular_map impl) ''autorun'')) ''yaw'' = Some yaw_adjust
         \<and> angular_z tw
             = limit_to (yaw_limit impl) (fadd32 (to_float yaw_primary) (to_float yaw_adjust))"
  using run
proof (cases rule: joyCallback_branches)
  case (sent impl1 w tw)
  have f: "autorun_flag impl1"
    using joyCallback_flag_buffer(1) [OF run sent(1)] on by simp
  then have r: "autorun_flag (reset_speed impl1)" "reset_speed impl1 = impl1" "w = ''autorun''"
    using sent(4) by (simp_all add: reset_speed_def)
  from sendCmdVelMsg_yaw [OF sent(2) r(1)] autorun_toggle_frame [OF sent(1)] r sent(3)
  show ?thesis by (auto simp: yaw_limit_def)
next
  case (stopped impl1)
  then show ?thesis using joyCallback_flag_buffer(1) [OF run stopped(1)] on by simp
qed

lemma autorun_yaw_within_nonnegative_limit:
  assumes run: "joyCallback info_enabled impl joy_msg = Some (impl', Some tw)"
    and on: "autorun_flag impl'"
    and lim: "yaw_limit impl = Finite L" "0 \<le> L"
    and fin: "angular_z tw = Finite v"
  shows "- L \<le> v \<and> v \<le> L"
proof -
  from autorun_yaw_limited [OF run on] lim(1) fin
  obtain s where "limit_to (Finite L) s = Finite v" by auto
  from limit_to_within [OF lim(2) this] show ?thesis .
qed

text \<open>
  Claim C8 says that the published yaw is the sum of the two yaw inputs limited to
  \<open>[-yaw_limit, +yaw_limit]\<close>, and differs from the sum only when the sum exceeds the
  limit in magnitude (the comment of line 436: limit the sum so that it stays within the
  range of the maximum). With the autorun scale of the yaw axis at \<open>-1\<close> and the sticks
  centred, both inputs and their sum are 0, which does not exceed the limit in magnitude;
  the comparisons of lines 437-438 replace it by \<open>-1\<close> and then by \<open>1\<close>, and the
  command turns the robot at \<open>angular.z = 1\<close>. It is the defect of lines 425-426.
\<close>

theorem autorun_yaw_above_negative_limit:
  "joyCallback True yaw_reversed_impl j_press_centred
     = Some (yaw_reversed_cruising, Some (cmd 0 1))
 \<and> autorun_flag yaw_reversed_cruising
 \<and> getVal j_press_centred (axis_angular_map yaw_reversed_impl)
      (fst (scale_index (scale_angular_map yaw_reversed_impl) ''autorun'')) ''yaw''
      = Some (Finite 0)
 \<and> getVal j_press_centred (axis_angular_adjustment_map yaw_reversed_impl)
      (fst (scale_index (scale_angular_map yaw_reversed_impl) ''autorun'')) ''yaw''
      = Some (Finite 0)
 \<and> fadd32 (to_float (Finite 0)) (to_float (Finite 0)) = Finite 0
 \<and> yaw_limit yaw_reversed_impl = Finite (-1)
 \<and> angular_z (cmd 0 1) = Finite 1
 \<and> fless (yaw_limit yaw_reversed_impl) (angular_z (cmd 0 1))"
  by (simp add: step_yaw_reversed yaw_inputs scenario_limits rounding) (simp add: scenario_defs)

section \<open>The stop command\<close>






section \<open>Parameter updates\<close>

lemma intparams_options: "intparams = set integer_options"
  by (auto simp: intparams_def integer_options_def)

lemma doubleparams_options: "doubleparams = set double_options"
  by (auto simp: doubleparams_def double_options_def)

lemma options_disjoint:
  "''require_enable_button'' \<notin> intparams" "''require_enable_button'' \<notin> doubleparams"
  "intparams \<inter> doubleparams = {}"
  by (auto simp: intparams_def doubleparams_def)

lemma mismatched_iff:
  "mismatched p \<longleftrightarrow>
     (get_name p \<in> intparams \<and> get_type p \<noteq> PARAMETER_INTEGER)
   \<or> (get_name p \<in> doubleparams \<and> get_type p \<noteq> PARAMETER_DOUBLE)
   \<or> (get_name p \<in> boolparams \<and> get_type p \<noteq> PARAMETER_BOOL)"
  using options_disjoint
  by (auto simp: mismatched_def expected_kind_def boolparams_def
      intparams_options [symmetric] doubleparams_options [symmetric])

lemma check_types_None: "check_types ps = None \<longleftrightarrow> (\<forall>p \<in> set ps. \<not> mismatched p)"
  using options_disjoint
  by (induction ps) (auto simp: mismatched_iff boolparams_def)

lemma check_types_Some:
  "check_types ps = Some r \<Longrightarrow>
     \<exists>q \<in> set ps. mismatched q \<and> (\<exists>kind. r = only_values kind (get_name q))"
proof (induction ps)
  case Nil
  then show ?case by simp
next
  case (Cons p ps)
  then show ?case
    by (auto simp: mismatched_iff split: if_splits)
qed

lemma typed_values:
  "get_type p = PARAMETER_INTEGER \<Longrightarrow> \<exists>i. get_value_integer p = Some i"
  "get_type p = PARAMETER_DOUBLE \<Longrightarrow> \<exists>d. get_value_double p = Some d"
  "get_type p = PARAMETER_BOOL \<Longrightarrow> \<exists>b. get_value_bool p = Some b"
  by (cases "get_parameter_value p"; simp add: get_type_def get_value_integer_def
      get_value_double_def get_value_bool_def)+

lemma assign_parameter_defined:
  assumes "\<not> mismatched p"
  shows "\<exists>impl'. assign_parameter impl p = Some impl'"
proof -
  consider (i) "get_name p \<in> intparams" | (d) "get_name p \<in> doubleparams"
    | (b) "get_name p \<in> boolparams"
    | (u) "get_name p \<notin> intparams" "get_name p \<notin> doubleparams" "get_name p \<notin> boolparams"
    by blast
  then show ?thesis
  proof cases
    case i
    then have "get_type p = PARAMETER_INTEGER" using assms by (simp add: mismatched_iff)
    then obtain v where v: "get_value_integer p = Some v" using typed_values(1) by blast
    from i show ?thesis unfolding intparams_def
      by (auto simp: assign_parameter_def v)
  next
    case d
    then have "get_type p = PARAMETER_DOUBLE" using assms by (simp add: mismatched_iff)
    then obtain v where v: "get_value_double p = Some v" using typed_values(2) by blast
    from d show ?thesis unfolding doubleparams_def
      by (auto simp: assign_parameter_def v)
  next
    case b
    then have "get_type p = PARAMETER_BOOL" using assms by (simp add: mismatched_iff)
    then obtain v where v: "get_value_bool p = Some v" using typed_values(3) by blast
    from b show ?thesis unfolding boolparams_def
      by (auto simp: assign_parameter_def v)
  next
    case u
    then show ?thesis unfolding intparams_def doubleparams_def boolparams_def
      by (simp add: assign_parameter_def)
  qed
qed

lemma assign_parameters_defined:
  "\<forall>p \<in> set ps. \<not> mismatched p \<Longrightarrow> \<exists>impl'. assign_parameters impl ps = Some impl'"
proof (induction ps arbitrary: impl)
  case Nil
  then show ?case by simp
next
  case (Cons p ps)
  then obtain impl1 where "assign_parameter impl p = Some impl1"
    using assign_parameter_defined [of p impl] by auto
  then show ?case using Cons by simp
qed

lemma batch_kinds:
  "mismatched (bad_batch ! 1)" "\<not> mismatched (bad_batch ! 0)"
  "\<forall>p \<in> set good_batch. \<not> mismatched p"
  by (simp_all add: bad_batch_def good_batch_def mismatched_def expected_kind_def
      integer_options_def double_options_def get_type_def)

lemma bad_batch_rejected:
  "param_callback cruise_impl bad_batch
     = Some (cruise_impl, \<lparr>successful = False,
          reason = ''Only double values can be set for '' @ [CHR 0x27] @ ''scale_linear.x''
                   @ [CHR 0x27] @ ''.''\<rparr>)"
  by (simp add: param_callback_def bad_batch_def intparams_def doubleparams_def boolparams_def
      get_type_def only_values_def)

lemma good_batch_applied:
  "param_callback default_impl good_batch
     = Some (default_impl\<lparr>enable_autorun_button := 0,
               scale_linear_map := scale_assign (scale_linear_map default_impl) ''autorun'' ''x'' (Finite 2)\<rparr>,
             \<lparr>successful = True, reason = []\<rparr>)"
  by (simp add: param_callback_def good_batch_def intparams_def doubleparams_def boolparams_def
      get_type_def assign_parameter_def get_value_integer_def get_value_double_def)

text \<open>
  Claim C10. A batch with a parameter whose kind differs from the kind its option
  expects is rejected: the result is unsuccessful, its reason quotes the name of such a
  parameter, and the members are returned as they were. A batch without one is applied:
  the second loop runs through without an exception and the result is successful.
\<close>

theorem parameter_batch_atomic:
  "((\<exists>p \<in> set ps. mismatched p) \<longrightarrow>
      (\<exists>q \<in> set ps. mismatched q \<and>
         (\<exists>kind. param_callback impl ps
                    = Some (impl, \<lparr>successful = False, reason = only_values kind (get_name q)\<rparr>))))
 \<and> ((\<forall>p \<in> set ps. \<not> mismatched p) \<longrightarrow>
      (\<exists>impl'. assign_parameters impl ps = Some impl'
         \<and> param_callback impl ps = Some (impl', \<lparr>successful = True, reason = []\<rparr>)))"
proof (intro conjI impI)
  assume "\<exists>p \<in> set ps. mismatched p"
  then obtain r where r: "check_types ps = Some r"
    using check_types_None [of ps] by (cases "check_types ps") auto
  from check_types_Some [OF r] show "\<exists>q \<in> set ps. mismatched q \<and>
         (\<exists>kind. param_callback impl ps
                    = Some (impl, \<lparr>successful = False, reason = only_values kind (get_name q)\<rparr>))"
    by (auto simp: param_callback_def r)
next
  assume ok: "\<forall>p \<in> set ps. \<not> mismatched p"
  then have "check_types ps = None" by (simp add: check_types_None)
  moreover obtain impl' where "assign_parameters impl ps = Some impl'"
    using assign_parameters_defined [OF ok] by blast
  ultimately show "\<exists>impl'. assign_parameters impl ps = Some impl'
         \<and> param_callback impl ps = Some (impl', \<lparr>successful = True, reason = []\<rparr>)"
    by (simp add: param_callback_def)
qed

theorem parameter_batch_atomic_witness:
  "mismatched (bad_batch ! 1)
 \<and> param_callback cruise_impl bad_batch
     = Some (cruise_impl, \<lparr>successful = False,
          reason = ''Only double values can be set for '' @ [CHR 0x27] @ ''scale_linear.x''
                   @ [CHR 0x27] @ ''.''\<rparr>)
 \<and> list_all (\<lambda>p. \<not> mismatched p) good_batch
 \<and> param_callback default_impl good_batch
     = Some (default_impl\<lparr>enable_autorun_button := 0,
               scale_linear_map := scale_assign (scale_linear_map default_impl) ''autorun'' ''x'' (Finite 2)\<rparr>,
             \<lparr>successful = True, reason = []\<rparr>)
 \<and> x_limit (default_impl\<lparr>enable_autorun_button := 0,
               scale_linear_map := scale_assign (scale_linear_map default_impl) ''autorun'' ''x'' (Finite 2)\<rparr>) = Finite 2"
proof -
  have x: "x_limit (default_impl\<lparr>enable_autorun_button := 0,
               scale_linear_map := scale_assign (scale_linear_map default_impl) ''autorun'' ''x'' (Finite 2)\<rparr>) = Finite 2"
    by (simp add: x_limit_def callback_defs scenario_defs)
  have b: "\<exists>p \<in> set bad_batch. mismatched p"
    using batch_kinds(1) by (auto simp: bad_batch_def)
  show ?thesis
    using b batch_kinds bad_batch_rejected good_batch_applied x
      parameter_batch_atomic [of bad_batch cruise_impl]
      parameter_batch_atomic [of good_batch default_impl]
    by (simp add: list_all_iff)
qed

end
